theory Spec2Isabelle
  imports Complex_Main "HOL-Library.AList"
begin

section \<open>Python values and exceptions\<close>

text \<open>
  The exceptions the orchestration code can meet. \<open>TimeoutError\<close> is the class the
  source imports from its own \<^verbatim>\<open>utils.timeout\<close> module; \<open>LibraryError\<close> stands for any
  other exception class raised by a library call, named by its class name.
\<close>

datatype error =
    FileNotFoundError
  | TimeoutError
  | MemoryError
  | KeyError
  | TypeError
  | ValueError
  | AttributeError
  | IndexError
  | LibraryError string

text \<open>
  A Python float: a finite double is the rational it denotes; \<^verbatim>\<open>json.load\<close> also
  accepts \<^verbatim>\<open>Infinity\<close>, \<^verbatim>\<open>-Infinity\<close> and \<^verbatim>\<open>NaN\<close>.
\<close>

datatype pyfloat = Finite rat | PosInf | NegInf | NaN

text \<open>The values \<^verbatim>\<open>json.load\<close> produces; a dict keeps its insertion order.\<close>

datatype json =
    JNull
  | JBool bool
  | JInt int
  | JFloat pyfloat
  | JStr string
  | JList "json list"
  | JObj "(string \<times> json) list"

text \<open>The numeric value of \<^verbatim>\<open>bool\<close>, \<^verbatim>\<open>int\<close> and \<^verbatim>\<open>float\<close> operands; no other type is numeric.\<close>

fun as_num :: "json \<Rightarrow> pyfloat option" where
  "as_num (JBool b) = Some (Finite (if b then 1 else 0))"
| "as_num (JInt i) = Some (Finite (of_int i))"
| "as_num (JFloat f) = Some f"
| "as_num _ = None"

fun float_lt :: "pyfloat \<Rightarrow> pyfloat \<Rightarrow> bool" where
  "float_lt (Finite a) (Finite b) = (a < b)"
| "float_lt (Finite a) PosInf = True"
| "float_lt NegInf (Finite b) = True"
| "float_lt NegInf PosInf = True"
| "float_lt _ _ = False"

fun float_eq :: "pyfloat \<Rightarrow> pyfloat \<Rightarrow> bool" where
  "float_eq (Finite a) (Finite b) = (a = b)"
| "float_eq PosInf PosInf = True"
| "float_eq NegInf NegInf = True"
| "float_eq _ _ = False"

text \<open>\<^verbatim>\<open>str\<close> ordering: lexicographic on the code units.\<close>

fun str_lt :: "string \<Rightarrow> string \<Rightarrow> bool" where
  "str_lt [] [] = False"
| "str_lt [] (y # ys) = True"
| "str_lt (x # xs) [] = False"
| "str_lt (x # xs) (y # ys) =
     (if x = y then str_lt xs ys else (of_char x :: nat) < of_char y)"

text \<open>
  What a container comparison uses to find the first differing position: the operands
  are the same object or compare equal. All \<^verbatim>\<open>NaN\<close> values read by \<^verbatim>\<open>json.load\<close> are
  one object, and \<^verbatim>\<open>None\<close> is a singleton.
\<close>

fun py_same :: "json \<Rightarrow> json \<Rightarrow> bool"
  and py_same_list :: "json list \<Rightarrow> json list \<Rightarrow> bool"
  and py_same_items :: "(string \<times> json) list \<Rightarrow> (string \<times> json) list \<Rightarrow> bool" where
  "py_same JNull JNull = True"
| "py_same (JStr a) (JStr b) = (a = b)"
| "py_same (JList a) (JList b) = py_same_list a b"
| "py_same (JObj a) (JObj b) = (length a = length b \<and> py_same_items a b)"
| "py_same a b =
     (case (as_num a, as_num b) of
        (Some x, Some y) \<Rightarrow> (x = NaN \<and> y = NaN) \<or> float_eq x y
      | _ \<Rightarrow> False)"
| "py_same_list [] [] = True"
| "py_same_list (x # xs) (y # ys) = (py_same x y \<and> py_same_list xs ys)"
| "py_same_list _ _ = False"
| "py_same_items [] b = True"
| "py_same_items ((k, v) # a) b =
     (case map_of b k of None \<Rightarrow> False | Some w \<Rightarrow> py_same v w \<and> py_same_items a b)"

text \<open>
  The operators \<^verbatim>\<open>a < b\<close> and \<^verbatim>\<open>a > b\<close>: defined between numbers, between strings and
  between lists; every other pair of operand types raises \<^verbatim>\<open>TypeError\<close>.
\<close>

fun py_lt :: "json \<Rightarrow> json \<Rightarrow> error + bool"
  and py_lt_list :: "json list \<Rightarrow> json list \<Rightarrow> error + bool" where
  "py_lt (JStr a) (JStr b) = Inr (str_lt a b)"
| "py_lt (JList a) (JList b) = py_lt_list a b"
| "py_lt a b =
     (case (as_num a, as_num b) of
        (Some x, Some y) \<Rightarrow> Inr (float_lt x y)
      | _ \<Rightarrow> Inl TypeError)"
| "py_lt_list [] [] = Inr False"
| "py_lt_list [] (y # ys) = Inr True"
| "py_lt_list (x # xs) [] = Inr False"
| "py_lt_list (x # xs) (y # ys) = (if py_same x y then py_lt_list xs ys else py_lt x y)"

fun py_gt :: "json \<Rightarrow> json \<Rightarrow> error + bool"
  and py_gt_list :: "json list \<Rightarrow> json list \<Rightarrow> error + bool" where
  "py_gt (JStr a) (JStr b) = Inr (str_lt b a)"
| "py_gt (JList a) (JList b) = py_gt_list a b"
| "py_gt a b =
     (case (as_num a, as_num b) of
        (Some x, Some y) \<Rightarrow> Inr (float_lt y x)
      | _ \<Rightarrow> Inl TypeError)"
| "py_gt_list [] [] = Inr False"
| "py_gt_list [] (y # ys) = Inr False"
| "py_gt_list (x # xs) [] = Inr True"
| "py_gt_list (x # xs) (y # ys) = (if py_same x y then py_gt_list xs ys else py_gt x y)"

text \<open>Subscription \<^verbatim>\<open>d[key]\<close> with a string key.\<close>

fun py_getitem :: "json \<Rightarrow> string \<Rightarrow> error + json" where
  "py_getitem (JObj kvs) k = (case map_of kvs k of None \<Rightarrow> Inl KeyError | Some v \<Rightarrow> Inr v)"
| "py_getitem _ k = Inl TypeError"

text \<open>\<^verbatim>\<open>os.path.join\<close> on POSIX paths.\<close>

definition join2 :: "string \<Rightarrow> string \<Rightarrow> string" where
  "join2 path b =
     (if b \<noteq> [] \<and> hd b = CHR ''/'' then b
      else if path = [] \<or> last path = CHR ''/'' then path @ b
      else path @ ''/'' @ b)"

definition joinpath :: "string \<Rightarrow> string list \<Rightarrow> string" where
  "joinpath a p = foldl join2 a p"

section \<open>The machine: files, console, clock\<close>

text \<open>
  Effects that leave a mark outside the process, in the order they happen: a file opened
  for writing, a download, and the estimator methods called by \<^verbatim>\<open>evaluate_model\<close>.
\<close>

datatype event =
    Wrote string
  | Urlretrieve string string
  | Initialize
  | LoadParams string
  | Fit
  | SaveParams string
  | Predict

text \<open>
  The state threaded through every function: the regular files as the file system lists
  them, each path with its text (directories are implicit: a directory exists when a file
  lies below it, and \<^verbatim>\<open>makedirs(..., exist_ok=True)\<close> changes no file), the lines
  printed, the wall clock read by \<^verbatim>\<open>time.time()\<close> in seconds, the armed timer of the
  timeout wrapper, the trace of events, and the class attribute
  \<^verbatim>\<open>SteelPlatesFaultsDataset.feature_names\<close>, which exists only once it was assigned.
\<close>

record state =
  files :: "(string \<times> string) list"
  stdout :: "string list"
  clock :: rat
  deadline :: "rat option"
  trace :: "event list"
  feature_names :: "string list option"

definition read_file :: "state \<Rightarrow> string \<Rightarrow> string option" where
  "read_file s path = map_of (files s) path"

definition write_file :: "string \<Rightarrow> string \<Rightarrow> state \<Rightarrow> state" where
  "write_file path text s = s\<lparr>files := AList.update path text (files s)\<rparr>"

definition isfile :: "state \<Rightarrow> string \<Rightarrow> bool" where
  "isfile s path = (read_file s path \<noteq> None)"

text \<open>
  \<^verbatim>\<open>makedirs(path, exist_ok=True)\<close>: directories being implicit, it leaves the state as
  it is.
\<close>

definition makedirs :: "string \<Rightarrow> state \<Rightarrow> state" where
  "makedirs path s = s"

definition print :: "string \<Rightarrow> state \<Rightarrow> state" where
  "print line s = s\<lparr>stdout := stdout s @ [line]\<rparr>"

definition log_event :: "event \<Rightarrow> state \<Rightarrow> state" where
  "log_event ev s = s\<lparr>trace := trace s @ [ev]\<rparr>"

text \<open>
  A call into a library: how long it runs and what it returns or raises. \<open>run\<close> lets
  the clock advance by the duration; under an armed timer that would expire before the
  call ends, the call is interrupted at the deadline and \<^verbatim>\<open>TimeoutError\<close> is raised
  in its place.
\<close>

type_synonym 'a call = "rat \<times> (error + 'a)"

definition run :: "'a call \<Rightarrow> state \<Rightarrow> (error + 'a) \<times> state" where
  "run c s =
     (let t = clock s + fst c in
      case deadline s of
        None \<Rightarrow> (snd c, s\<lparr>clock := t\<rparr>)
      | Some d \<Rightarrow> if d < t then (Inl TimeoutError, s\<lparr>clock := d\<rparr>)
                  else (snd c, s\<lparr>clock := t\<rparr>))"

text \<open>Sequencing: the first exception ends the computation, as a raise does.\<close>

definition seq ::
  "(state \<Rightarrow> (error + 'a) \<times> state) \<Rightarrow> ('a \<Rightarrow> state \<Rightarrow> (error + 'b) \<times> state) \<Rightarrow>
   state \<Rightarrow> (error + 'b) \<times> state" where
  "seq m f s = (case m s of (Inl e, s') \<Rightarrow> (Inl e, s') | (Inr x, s') \<Rightarrow> f x s')"

definition pure :: "error + 'a \<Rightarrow> state \<Rightarrow> (error + 'a) \<times> state" where
  "pure r s = (r, s)"

text \<open>
  Modelled from the spec: \<^verbatim>\<open>utils/timeout.py\<close> (\<^verbatim>\<open>set_timeout\<close>, \<^verbatim>\<open>TimeoutError\<close>) is
  not among the sources. The spec describes a wrapper that runs the call under a
  wall-clock deadline and forcibly aborts it when the deadline elapses, raising a timeout
  condition back to the caller. The timer is armed on entry and disarmed on every exit.
\<close>

definition set_timeout ::
  "(state \<Rightarrow> (error + 'a) \<times> state) \<Rightarrow> int \<Rightarrow> state \<Rightarrow> (error + 'a) \<times> state" where
  "set_timeout f seconds s =
     (case f (s\<lparr>deadline := Some (clock s + of_int seconds)\<rparr>) of
        (r, s') \<Rightarrow> (r, s'\<lparr>deadline := None\<rparr>))"

text \<open>
  Modelled from the spec: \<^verbatim>\<open>config.RESULTS_DIR\<close> is not among the sources; the spec
  gives the results directory as \<^verbatim>\<open>results/<Dataset>/<Model>/\<close>.
\<close>

definition RESULTS_DIR :: string where
  "RESULTS_DIR = ''results''"

section \<open>Libraries, datasets and models as the orchestrator sees them\<close>

text \<open>
  The library functions \<^verbatim>\<open>utils/training.py\<close> calls and does not define:
  \<^verbatim>\<open>json.load\<close> on a file's text, \<^verbatim>\<open>json.dump\<close> (the text that reaches the file, and
  the exception if serialisation stops midway), the built-in \<^verbatim>\<open>format(value, spec)\<close>
  behind every f-string field, and \<^verbatim>\<open>utils.compute_metric\<close>, \<^verbatim>\<open>utils.compute_loss\<close>.
\<close>

record 'x lib =
  json_load :: "string \<Rightarrow> error + json"
  json_dump :: "json \<Rightarrow> string \<times> error option"
  py_format :: "json \<Rightarrow> string \<Rightarrow> error + string"
  compute_metric :: "'x \<Rightarrow> 'x \<Rightarrow> string \<Rightarrow> json call"
  compute_loss :: "string \<Rightarrow> json list \<Rightarrow> json call"

text \<open>
  A dataset class: \<^verbatim>\<open>__name__\<close>, \<^verbatim>\<open>get()\<close> (whose result the orchestrator unpacks
  into two), \<^verbatim>\<open>metric\<close>, \<^verbatim>\<open>is_metric_maximized\<close>, \<^verbatim>\<open>categorical_features\<close>.
\<close>

record 'd dataset =
  ds_name :: string
  ds_get :: "state \<Rightarrow> (error + 'd list) \<times> state"
  metric :: string
  is_metric_maximized :: bool
  categorical_features :: "string list"

text \<open>
  A model class with the estimator it builds: \<^verbatim>\<open>__name__\<close>, \<^verbatim>\<open>prepare_dataset\<close>,
  \<^verbatim>\<open>build_estimator\<close>, and the estimator's methods. \<^verbatim>\<open>load_params\<close> reads the text of
  the weights file; \<^verbatim>\<open>save_params\<close> returns the text it writes, and
  \<open>est_save_partial\<close> is what a \<^verbatim>\<open>save_params\<close> that did not finish leaves at the
  path (\<open>None\<close>: the file was not created).
\<close>

record ('d, 'x, 'e) model =
  model_name :: string
  prepare_dataset :: "'d \<Rightarrow> 'd \<Rightarrow> string list \<Rightarrow> ('x list \<times> 'x list) call"
  build_estimator :: "json \<Rightarrow> 'x list \<Rightarrow> 'e call"
  est_initialize :: "'e \<Rightarrow> 'e call"
  est_load_params :: "'e \<Rightarrow> string \<Rightarrow> 'e call"
  est_fit :: "'e \<Rightarrow> 'x \<Rightarrow> 'x \<Rightarrow> 'e call"
  est_save_params :: "'e \<Rightarrow> string call"
  est_save_partial :: "'e \<Rightarrow> string option"
  est_predict :: "'e \<Rightarrow> 'x \<Rightarrow> 'x call"

text \<open>Unary minus on a number.\<close>

fun float_neg :: "pyfloat \<Rightarrow> pyfloat" where
  "float_neg (Finite a) = Finite (- a)"
| "float_neg PosInf = NegInf"
| "float_neg NegInf = PosInf"
| "float_neg NaN = NaN"

fun py_neg :: "json \<Rightarrow> error + json" where
  "py_neg (JBool b) = Inr (JInt (- (if b then 1 else 0)))"
| "py_neg (JInt i) = Inr (JInt (- i))"
| "py_neg (JFloat f) = Inr (JFloat (float_neg f))"
| "py_neg _ = Inl TypeError"

section \<open>\<^verbatim>\<open>utils/training.py\<close>\<close>

subsection \<open>\<^verbatim>\<open>get_tuning_results\<close>\<close>

definition get_tuning_results ::
  "'x lib \<Rightarrow> 'd dataset \<Rightarrow> ('d, 'x, 'e) model \<Rightarrow> state \<Rightarrow> (error + json) \<times> state" where
  "get_tuning_results L dataset model s =
     (let tuning_results_dir = joinpath RESULTS_DIR [ds_name dataset, model_name model] in
      case read_file s (joinpath tuning_results_dir [''tuning.json'']) of
        None \<Rightarrow> (Inl FileNotFoundError, s)
      | Some text \<Rightarrow> (json_load L text, s))"

subsection \<open>\<^verbatim>\<open>save_evaluation_results\<close>\<close>

text \<open>
  The \<^verbatim>\<open>try\<close> block: open the stored result, load it, compare the validation scores
  in the direction of the dataset's flag. The left operand is subscripted first.
\<close>

definition compare_with_previous ::
  "'x lib \<Rightarrow> 'd dataset \<Rightarrow> json \<Rightarrow> string option \<Rightarrow> error + bool" where
  "compare_with_previous L dataset tuning_results stored =
     (case stored of
        None \<Rightarrow> Inl FileNotFoundError
      | Some text \<Rightarrow>
          (case json_load L text of
             Inl e \<Rightarrow> Inl e
           | Inr prev_results \<Rightarrow>
               (case py_getitem tuning_results ''score'' of
                  Inl e \<Rightarrow> Inl e
                | Inr new \<Rightarrow>
                    (case py_getitem prev_results ''val_score'' of
                       Inl e \<Rightarrow> Inl e
                     | Inr old \<Rightarrow>
                         if is_metric_maximized dataset then py_gt new old
                         else py_lt new old))))"

text \<open>The \<^verbatim>\<open>except FileNotFoundError\<close> clause around it.\<close>

definition better_val_results ::
  "'x lib \<Rightarrow> 'd dataset \<Rightarrow> json \<Rightarrow> string option \<Rightarrow> error + bool" where
  "better_val_results L dataset tuning_results stored =
     (case compare_with_previous L dataset tuning_results stored of
        Inl FileNotFoundError \<Rightarrow> Inr True
      | r \<Rightarrow> r)"

text \<open>The dict that is stored, its values evaluated in the order of the literal.\<close>

definition evaluation_record ::
  "'d dataset \<Rightarrow> json \<Rightarrow> json \<Rightarrow> json \<Rightarrow> json \<Rightarrow> error + json" where
  "evaluation_record dataset tuning_results score train_time evaluation_time =
     (case py_getitem tuning_results ''hp'' of
        Inl e \<Rightarrow> Inl e
      | Inr hp \<Rightarrow>
          (case py_getitem tuning_results ''n_trials'' of
             Inl e \<Rightarrow> Inl e
           | Inr n_trials \<Rightarrow>
               (case py_getitem tuning_results ''score'' of
                  Inl e \<Rightarrow> Inl e
                | Inr val_score \<Rightarrow>
                    Inr (JObj [(''hp'', hp), (''score'', score),
                               (''tuning_n_trials'', n_trials), (''val_score'', val_score),
                               (''train_time'', train_time),
                               (''evaluation_time'', evaluation_time),
                               (''metric_used'', JStr (metric dataset))]))))"

text \<open>
  \<^verbatim>\<open>open(path, 'w')\<close> followed by \<^verbatim>\<open>json.dump\<close>: the file holds what was written, also
  when serialisation raises midway.
\<close>

definition write_json :: "'x lib \<Rightarrow> string \<Rightarrow> json \<Rightarrow> state \<Rightarrow> (error + unit) \<times> state" where
  "write_json L path doc s =
     (let (text, err) = json_dump L doc;
          s' = log_event (Wrote path) (write_file path text s)
      in case err of None \<Rightarrow> (Inr (), s') | Some e \<Rightarrow> (Inl e, s'))"

definition save_evaluation_results ::
  "'x lib \<Rightarrow> 'd dataset \<Rightarrow> ('d, 'x, 'e) model \<Rightarrow> json \<Rightarrow> json \<Rightarrow> json \<Rightarrow> json \<Rightarrow>
   state \<Rightarrow> (error + unit) \<times> state" where
  "save_evaluation_results L dataset model tuning_results score train_time evaluation_time s0 =
     (let results_dir = joinpath RESULTS_DIR [ds_name dataset, model_name model];
          s = makedirs results_dir s0;
          path = joinpath results_dir [''evaluation.json'']
      in case better_val_results L dataset tuning_results (read_file s path) of
           Inl e \<Rightarrow> (Inl e, s)
         | Inr False \<Rightarrow> (Inr (), s)
         | Inr True \<Rightarrow>
             (case evaluation_record dataset tuning_results score train_time evaluation_time of
                Inl e \<Rightarrow> (Inl e, s)
              | Inr results \<Rightarrow> write_json L path results s))"

subsection \<open>\<^verbatim>\<open>evaluate_model\<close>\<close>

text \<open>The branch that restores saved weights: the training time is the sentinel \<open>-1\<close>.\<close>

definition restore_estimator ::
  "('d, 'x, 'e) model \<Rightarrow> string \<Rightarrow> 'e \<Rightarrow> state \<Rightarrow> (error + 'e \<times> json) \<times> state" where
  "restore_estimator model path estimator =
     seq (\<lambda>s. run (est_initialize model estimator) (log_event Initialize s))
       (\<lambda>e1. seq (\<lambda>s. case read_file s path of
                          None \<Rightarrow> (Inl FileNotFoundError, log_event (LoadParams path) s)
                        | Some text \<Rightarrow>
                            run (est_load_params model e1 text) (log_event (LoadParams path) s))
          (\<lambda>e2. pure (Inr (e2, JInt (- 1)))))"

text \<open>
  The branch that trains: \<^verbatim>\<open>X, y, *_ = train_data\<close> needs at least two elements; the
  training time is the clock after \<^verbatim>\<open>fit\<close> minus the clock read on entry of
  \<^verbatim>\<open>evaluate_model\<close>; the designated model then saves its weights.
\<close>

definition save_weights ::
  "('d, 'x, 'e) model \<Rightarrow> string \<Rightarrow> 'e \<Rightarrow> state \<Rightarrow> (error + unit) \<times> state" where
  "save_weights model path estimator s =
     (case run (est_save_params model estimator) (log_event (SaveParams path) s) of
        (Inl e, s') \<Rightarrow>
          (Inl e, case est_save_partial model estimator of
                    None \<Rightarrow> s'
                  | Some text \<Rightarrow> write_file path text s')
      | (Inr text, s') \<Rightarrow> (Inr (), write_file path text s'))"

definition train_estimator ::
  "('d, 'x, 'e) model \<Rightarrow> bool \<Rightarrow> string \<Rightarrow> rat \<Rightarrow> 'x list \<Rightarrow> 'e \<Rightarrow>
   state \<Rightarrow> (error + 'e \<times> json) \<times> state" where
  "train_estimator model is_cifar_model path start_time train_data estimator =
     (case train_data of
        X # y # _ \<Rightarrow>
          seq (\<lambda>s. run (est_fit model estimator X y) (log_event Fit s))
            (\<lambda>e1 s. let train_time = JFloat (Finite (clock s - start_time)) in
               if is_cifar_model
               then seq (save_weights model path e1) (\<lambda>_. pure (Inr (e1, train_time))) s
               else (Inr (e1, train_time), s))
      | _ \<Rightarrow> pure (Inl ValueError))"

text \<open>Scoring on the test split: \<^verbatim>\<open>X_test, y_test = test_data\<close> needs exactly two elements.\<close>

definition score_estimator ::
  "'x lib \<Rightarrow> ('d, 'x, 'e) model \<Rightarrow> 'd dataset \<Rightarrow> 'x list \<Rightarrow> 'e \<Rightarrow>
   state \<Rightarrow> (error + json \<times> json) \<times> state" where
  "score_estimator L model dataset test_data estimator s0 =
     (let start_time = clock s0 in
      case test_data of
        [X_test, y_test] \<Rightarrow>
          seq (\<lambda>s. run (est_predict model estimator X_test) (log_event Predict s))
            (\<lambda>predicted. seq (run (compute_metric L y_test predicted (metric dataset)))
               (\<lambda>metric_value. seq (run (compute_loss L (metric dataset) [metric_value]))
                  (\<lambda>loss. seq (pure (py_neg loss))
                     (\<lambda>score s. (Inr (score, JFloat (Finite (clock s - start_time))), s))))) s0
      | _ \<Rightarrow> (Inl ValueError, s0))"

definition evaluate_model ::
  "'x lib \<Rightarrow> ('d, 'x, 'e) model \<Rightarrow> 'd dataset \<Rightarrow> 'd \<Rightarrow> 'd \<Rightarrow> json \<Rightarrow>
   state \<Rightarrow> (error + json \<times> json \<times> json) \<times> state" where
  "evaluate_model L model dataset train test hyperparams s0 =
     (let is_cifar_model = (model_name model = ''Cifar10CustomModel'');
          cifar_model_weights_path = joinpath RESULTS_DIR [''Cifar10CustomModel-weights.pkl''];
          start_time = clock s0
      in seq (run (prepare_dataset model train test (categorical_features dataset)))
           (\<lambda>(train_data, test_data).
              seq (run (build_estimator model hyperparams train_data))
                (\<lambda>estimator.
                   seq (\<lambda>s. if is_cifar_model \<and> isfile s cifar_model_weights_path
                            then restore_estimator model cifar_model_weights_path estimator s
                            else train_estimator model is_cifar_model cifar_model_weights_path
                                   start_time train_data estimator s)
                     (\<lambda>(estimator', train_time).
                        seq (score_estimator L model dataset test_data estimator')
                          (\<lambda>(score, evaluation_time).
                             pure (Inr (score, train_time, evaluation_time)))))) s0)"

subsection \<open>\<^verbatim>\<open>train_all_models_on_all_datasets\<close>\<close>

definition say :: "string \<Rightarrow> state \<Rightarrow> (error + unit) \<times> state" where
  "say line s = (Inr (), print line s)"

text \<open>The three progress lines after a result was saved; a format field can raise.\<close>

definition report_results ::
  "'x lib \<Rightarrow> 'd dataset \<Rightarrow> json \<Rightarrow> json \<Rightarrow> json \<Rightarrow> json \<Rightarrow> state \<Rightarrow> (error + unit) \<times> state" where
  "report_results L dataset tuning_results score train_time evaluation_time =
     seq (pure (py_format L score ''.2f''))
       (\<lambda>a. seq (pure (py_getitem tuning_results ''score''))
          (\<lambda>v. seq (pure (py_format L v ''.2f''))
             (\<lambda>b. seq (say (''Results on test set: '' @ metric dataset @ ''='' @ a @
                              '' ('' @ b @ '' during validation)''))
                (\<lambda>_. seq (pure (py_format L train_time ''.1f''))
                   (\<lambda>c. seq (say (''Training time: '' @ c @ ''s''))
                      (\<lambda>_. seq (pure (py_format L evaluation_time ''.1f''))
                         (\<lambda>d. say (''Evaluation time: '' @ d @ ''s''))))))))"

text \<open>
  The second inner \<^verbatim>\<open>try\<close>: read the hyper-parameters and evaluate under the timer.
\<close>

definition timed_evaluation ::
  "'x lib \<Rightarrow> int \<Rightarrow> 'd dataset \<Rightarrow> 'd \<Rightarrow> 'd \<Rightarrow> ('d, 'x, 'e) model \<Rightarrow> json \<Rightarrow>
   state \<Rightarrow> (error + json \<times> json \<times> json) \<times> state" where
  "timed_evaluation L max_training_time dataset train test model tuning_results =
     seq (pure (py_getitem tuning_results ''hp''))
       (\<lambda>hyperparams.
          set_timeout (evaluate_model L model dataset train test hyperparams) max_training_time)"

text \<open>
  The body of the outer \<^verbatim>\<open>try\<close> for one model. \<open>Inr ()\<close> is the normal end of the
  iteration, by \<^verbatim>\<open>continue\<close> or by reaching the end; \<open>Inl e\<close> is an exception leaving it.
\<close>

definition pair_body ::
  "'x lib \<Rightarrow> int \<Rightarrow> 'd dataset \<Rightarrow> 'd \<Rightarrow> 'd \<Rightarrow> ('d, 'x, 'e) model \<Rightarrow>
   state \<Rightarrow> (error + unit) \<times> state" where
  "pair_body L max_training_time dataset train test model s =
     (case get_tuning_results L dataset model s of
        (Inl FileNotFoundError, s1) \<Rightarrow>
          say ''No hyper-parameters saved for this dataset and model'' s1
      | (Inl e, s1) \<Rightarrow> (Inl e, s1)
      | (Inr tuning_results, s1) \<Rightarrow>
          (case timed_evaluation L max_training_time dataset train test model tuning_results s1 of
             (Inl TimeoutError, s2) \<Rightarrow>
               seq (pure (py_format L (JInt max_training_time) []))
                 (\<lambda>t. say (''Model training and testing exceeded allowed time ('' @ t @ ''s)'')) s2
           | (Inl e, s2) \<Rightarrow> (Inl e, s2)
           | (Inr (score, train_time, evaluation_time), s2) \<Rightarrow>
               seq (save_evaluation_results L dataset model tuning_results score train_time
                      evaluation_time)
                 (\<lambda>_. report_results L dataset tuning_results score train_time evaluation_time)
                 s2))"

text \<open>One iteration of the inner loop: the outer \<^verbatim>\<open>try\<close> catches \<^verbatim>\<open>MemoryError\<close> only.\<close>

definition process_pair ::
  "'x lib \<Rightarrow> int \<Rightarrow> 'd dataset \<Rightarrow> 'd \<Rightarrow> 'd \<Rightarrow> ('d, 'x, 'e) model \<Rightarrow>
   state \<Rightarrow> (error + unit) \<times> state" where
  "process_pair L max_training_time dataset train test model s =
     (case pair_body L max_training_time dataset train test model
             (print (''Model: '' @ model_name model) s) of
        (Inl MemoryError, s') \<Rightarrow>
          say ''Memory requirements for this model with this dataset are too high'' s'
      | r \<Rightarrow> r)"

fun models_loop ::
  "'x lib \<Rightarrow> int \<Rightarrow> 'd dataset \<Rightarrow> 'd \<Rightarrow> 'd \<Rightarrow> ('d, 'x, 'e) model list \<Rightarrow>
   state \<Rightarrow> (error + unit) \<times> state" where
  "models_loop L max_training_time dataset train test [] s = (Inr (), s)"
| "models_loop L max_training_time dataset train test (model # models) s =
     (case process_pair L max_training_time dataset train test model s of
        (Inl e, s') \<Rightarrow> (Inl e, s')
      | (Inr _, s') \<Rightarrow> models_loop L max_training_time dataset train test models s')"

text \<open>\<^verbatim>\<open>train, test = dataset.get()\<close>: the result must unpack into exactly two.\<close>

definition unpack2 :: "'a list \<Rightarrow> error + 'a \<times> 'a" where
  "unpack2 xs = (case xs of [a, b] \<Rightarrow> Inr (a, b) | _ \<Rightarrow> Inl ValueError)"

fun datasets_loop ::
  "'x lib \<Rightarrow> int \<Rightarrow> 'd dataset list \<Rightarrow> ('d, 'x, 'e) model list \<Rightarrow>
   state \<Rightarrow> (error + unit) \<times> state" where
  "datasets_loop L max_training_time [] models s = (Inr (), s)"
| "datasets_loop L max_training_time (dataset # datasets) models s =
     (case seq (ds_get dataset) (\<lambda>r. pure (unpack2 r))
             (print (''Dataset: '' @ ds_name dataset) s) of
        (Inl e, s') \<Rightarrow> (Inl e, s')
      | (Inr (train, test), s') \<Rightarrow>
          (case models_loop L max_training_time dataset train test models s' of
             (Inl e, s'') \<Rightarrow> (Inl e, s'')
           | (Inr _, s'') \<Rightarrow> datasets_loop L max_training_time datasets models s''))"

definition default_max_training_time :: int where
  "default_max_training_time = 180"

definition train_all_models_on_all_datasets ::
  "'x lib \<Rightarrow> 'd dataset list \<Rightarrow> ('d, 'x, 'e) model list \<Rightarrow> int \<Rightarrow>
   state \<Rightarrow> (error + unit) \<times> state" where
  "train_all_models_on_all_datasets L datasets models max_training_time s =
     datasets_loop L max_training_time datasets models s"

section \<open>\<^verbatim>\<open>classification/datasets/__init__.py\<close>\<close>

subsection \<open>Tables\<close>

text \<open>
  Column labels: a position (\<^verbatim>\<open>header=None\<close>), a name, or a pair of names (a two-level
  header). A \<^verbatim>\<open>DataFrame\<close> is its row labels in order and its columns in order, each
  column giving the cell of every row label; a \<^verbatim>\<open>Series\<close> is one such column. The
  readers return the number of rows and the columns, and the frame built from them has
  the row labels \<open>0, \<dots>, n - 1\<close>.
\<close>

datatype label = Pos nat | Name string | Multi string string

record 'c series =
  s_index :: "nat list"
  s_at :: "nat \<Rightarrow> 'c"

record 'c frame =
  index :: "nat list"
  cols :: "(label \<times> (nat \<Rightarrow> 'c)) list"

type_synonym 'c parsed = "nat \<times> (label \<times> (nat \<Rightarrow> 'c)) list"

definition frame_of :: "'c parsed \<Rightarrow> 'c frame" where
  "frame_of p = \<lparr>index = [0..<fst p], cols = snd p\<rparr>"

definition column :: "'c frame \<Rightarrow> (nat \<Rightarrow> 'c) \<Rightarrow> 'c series" where
  "column df f = \<lparr>s_index = index df, s_at = f\<rparr>"

definition series_values :: "'c series \<Rightarrow> 'c list" where
  "series_values y = map (s_at y) (s_index y)"

text \<open>Positional row selection, as \<^verbatim>\<open>train_test_split\<close> does on frames and series.\<close>

definition frame_rows :: "nat list \<Rightarrow> 'c frame \<Rightarrow> 'c frame" where
  "frame_rows positions df = df\<lparr>index := map (\<lambda>p. index df ! p) positions\<rparr>"

definition series_rows :: "nat list \<Rightarrow> 'c series \<Rightarrow> 'c series" where
  "series_rows positions y = y\<lparr>s_index := map (\<lambda>p. s_index y ! p) positions\<rparr>"

text \<open>\<^verbatim>\<open>df[label] = values\<close>: an existing column is replaced in place, a new one is appended.\<close>

fun set_column ::
  "label \<Rightarrow> (nat \<Rightarrow> 'c) \<Rightarrow> (label \<times> (nat \<Rightarrow> 'c)) list \<Rightarrow> (label \<times> (nat \<Rightarrow> 'c)) list" where
  "set_column l f [] = [(l, f)]"
| "set_column l f ((k, g) # cs) = (if k = l then (l, f) # cs else (k, g) # set_column l f cs)"

subsection \<open>The libraries\<close>

text \<open>
  What the module calls and does not define: the working directory of the process,
  \<^verbatim>\<open>urlretrieve\<close> (what it leaves at the target path, \<open>None\<close> when it created no file, and
  the exception it raised, if any), the readers \<^verbatim>\<open>pd.read_excel\<close> with a two-level
  header, \<^verbatim>\<open>pd.read_csv\<close> with \<^verbatim>\<open>header=None\<close> (by separator and number of skipped
  rows) and \<^verbatim>\<open>arff.loadarff\<close>, each on a file's text; the random draws of the shuffle;
  the classes a \<^verbatim>\<open>LabelEncoder\<close> finds; the \<^verbatim>\<open>.str\<close> accessor (whether a column has it,
  and a cell without its last character); \<^verbatim>\<open>pd.to_numeric\<close>; whether
  \<^verbatim>\<open>select_dtypes([np.object])\<close> keeps a column; and the chain
  \<^verbatim>\<open>stack().str.decode('utf-8').unstack()\<close>.
\<close>

record 'c env =
  getcwd :: string
  urlretrieve :: "string \<Rightarrow> string option \<times> error option"
  read_excel :: "string \<Rightarrow> error + 'c parsed"
  read_csv :: "string \<Rightarrow> nat \<Rightarrow> string \<Rightarrow> error + 'c parsed"
  loadarff :: "string \<Rightarrow> error + 'c parsed"
  rng :: "nat \<Rightarrow> nat"
  le_classes :: "'c list \<Rightarrow> error + 'c list"
  has_str :: "'c list \<Rightarrow> bool"
  str_butlast :: "'c \<Rightarrow> 'c"
  to_numeric :: "'c list \<Rightarrow> error + 'c list"
  is_object :: "'c list \<Rightarrow> bool"
  decode_utf8 :: "'c frame \<Rightarrow> error + 'c frame"

text \<open>
  A random permutation: each element is inserted at a drawn position among those
  already placed. Whatever the draws, the result is a permutation, and every
  permutation is the result of some draws.
\<close>

definition insert_at :: "nat \<Rightarrow> 'a \<Rightarrow> 'a list \<Rightarrow> 'a list" where
  "insert_at i x xs = take i xs @ x # drop i xs"

fun shuffle :: "(nat \<Rightarrow> nat) \<Rightarrow> 'a list \<Rightarrow> 'a list" where
  "shuffle draw [] = []"
| "shuffle draw (x # xs) = insert_at (draw (length xs) mod Suc (length xs)) x (shuffle draw xs)"

text \<open>
  \<^verbatim>\<open>sklearn.model_selection.train_test_split(X, y, test_size=t)\<close> with a fraction \<open>t\<close>:
  the test part has \<open>\<lceil>t n\<rceil>\<close> of the \<open>n\<close> rows, the train part the others, and an empty
  train part is an error; the rows are dealt out from one shuffle of the positions, the
  test part first. The result is \<^verbatim>\<open>X_train, X_test, y_train, y_test\<close>.
\<close>

definition train_test_split ::
  "(nat \<Rightarrow> nat) \<Rightarrow> 'c frame \<Rightarrow> 'c series \<Rightarrow> rat \<Rightarrow>
   error + 'c frame \<times> 'c frame \<times> 'c series \<times> 'c series" where
  "train_test_split draw X y t =
     (let n_samples = length (index X);
          n_test = nat \<lceil>t * of_nat n_samples\<rceil>;
          n_train = n_samples - n_test
      in if length (s_index y) \<noteq> n_samples then Inl ValueError
         else if t \<le> 0 \<or> 1 \<le> t then Inl ValueError
         else if n_train = 0 then Inl ValueError
         else let permutation = shuffle draw [0..<n_samples];
                  ind_test = take n_test permutation;
                  ind_train = take n_train (drop n_test permutation)
              in Inr (frame_rows ind_train X, frame_rows ind_test X,
                      series_rows ind_train y, series_rows ind_test y))"

subsection \<open>Module globals and class attributes\<close>

definition workdir :: "'c env \<Rightarrow> string" where
  "workdir E = joinpath (getcwd E) [''data'']"

definition test_size :: rat where
  "test_size = 1 / 4"

datatype dataset_class =
    DefaultCreditCardDataset
  | StatlogAustralianDataset
  | StatlogGermanDataset
  | AdultDataset
  | SteelPlatesFaultsDataset
  | SeismicBumps

fun filename :: "dataset_class \<Rightarrow> string option" where
  "filename DefaultCreditCardDataset = Some ''default of credit card clients.xls''"
| "filename StatlogAustralianDataset = Some ''australian.dat''"
| "filename StatlogGermanDataset = Some ''german.data-numeric''"
| "filename SeismicBumps = Some ''seismic-bumps.arff''"
| "filename _ = None"

fun url :: "dataset_class \<Rightarrow> string option" where
  "url DefaultCreditCardDataset = Some
     ''https://archive.ics.uci.edu/ml/machine-learning-databases/00350/default of credit card clients.xls''"
| "url StatlogAustralianDataset = Some
     ''http://archive.ics.uci.edu/ml/machine-learning-databases/statlog/australian/australian.dat''"
| "url StatlogGermanDataset = Some
     ''https://archive.ics.uci.edu/ml/machine-learning-databases/statlog/german/german.data-numeric''"
| "url SeismicBumps = Some
     ''https://archive.ics.uci.edu/ml/machine-learning-databases/00266/seismic-bumps.arff''"
| "url _ = None"

fun filenames :: "dataset_class \<Rightarrow> string list option" where
  "filenames AdultDataset = Some [''adult.data'', ''adult.test'']"
| "filenames SteelPlatesFaultsDataset = Some [''Faults.NNA'', ''Faults27x7_var'']"
| "filenames _ = None"

fun urls :: "dataset_class \<Rightarrow> string list option" where
  "urls AdultDataset = Some
     [''https://archive.ics.uci.edu/ml/machine-learning-databases/adult/adult.data'',
      ''https://archive.ics.uci.edu/ml/machine-learning-databases/adult/adult.test'']"
| "urls SteelPlatesFaultsDataset = Some
     [''https://archive.ics.uci.edu/ml/machine-learning-databases/00198/Faults.NNA'',
      ''https://archive.ics.uci.edu/ml/machine-learning-databases/00198/Faults27x7_var'']"
| "urls _ = None"

definition AdultDataset_feature_names :: "string list" where
  "AdultDataset_feature_names =
     [''age'', ''workclass'', ''fnlwgt'', ''education'', ''education-num'', ''marital-status'',
      ''occupation'', ''relationship'', ''race'', ''sex'', ''capital-gain'', ''capital-loss'',
      ''hours-per-week'', ''native-country'']"

text \<open>Reading an attribute the class does not have, and indexing a list.\<close>

definition getattr :: "'a option \<Rightarrow> error + 'a" where
  "getattr a = (case a of None \<Rightarrow> Inl AttributeError | Some v \<Rightarrow> Inr v)"

definition item :: "'a list \<Rightarrow> nat \<Rightarrow> error + 'a" where
  "item xs i = (if i < length xs then Inr (xs ! i) else Inl IndexError)"

subsection \<open>\<^verbatim>\<open>Dataset.download\<close>\<close>

text \<open>\<^verbatim>\<open>url.replace(' ', '%20')\<close>.\<close>

definition escaped :: "string \<Rightarrow> string" where
  "escaped u = concat (map (\<lambda>c. if c = CHR '' '' then ''%20'' else [c]) u)"

definition download_file :: "'c env \<Rightarrow> string \<Rightarrow> string \<Rightarrow> state \<Rightarrow> (error + unit) \<times> state" where
  "download_file E u fname s =
     (let u' = escaped u;
          path = joinpath (workdir E) [fname];
          (left, raised) = urlretrieve E u';
          s1 = log_event (Urlretrieve u' path) s;
          s2 = (case left of None \<Rightarrow> s1 | Some text \<Rightarrow> write_file path text s1)
      in case raised of None \<Rightarrow> (Inr (), s2) | Some e \<Rightarrow> (Inl e, s2))"

fun download_files ::
  "'c env \<Rightarrow> (string \<times> string) list \<Rightarrow> state \<Rightarrow> (error + unit) \<times> state" where
  "download_files E [] s = (Inr (), s)"
| "download_files E ((u, fname) # rest) s =
     (case download_file E u fname s of
        (Inl e, s') \<Rightarrow> (Inl e, s')
      | (Inr _, s') \<Rightarrow> download_files E rest s')"

definition download :: "'c env \<Rightarrow> dataset_class \<Rightarrow> state \<Rightarrow> (error + unit) \<times> state" where
  "download E cls s0 =
     (let s = makedirs (workdir E) s0 in
      case url cls of
        Some u \<Rightarrow> seq (pure (getattr (filename cls))) (\<lambda>fname. download_file E u fname) s
      | None \<Rightarrow>
          (case urls cls of
             Some us \<Rightarrow> seq (pure (getattr (filenames cls)))
                          (\<lambda>fnames. download_files E (zip us fnames)) s
           | None \<Rightarrow> (Inl ValueError, s)))"

subsection \<open>The \<^verbatim>\<open>get\<close> methods\<close>

text \<open>
  What \<^verbatim>\<open>get\<close> returns: two (features, labels) pairs, the labels a \<^verbatim>\<open>Series\<close> or the
  array of codes a \<^verbatim>\<open>LabelEncoder\<close> produced; or one frame.
\<close>

datatype 'c labels = Column "'c series" | Encoded "nat list"

datatype 'c get_result =
    Splits "'c frame \<times> 'c labels" "'c frame \<times> 'c labels"
  | Whole "'c frame"

text \<open>Reading a file with a reader raises \<^verbatim>\<open>FileNotFoundError\<close> when the file is absent.\<close>

definition read_with ::
  "(string \<Rightarrow> error + 'a) \<Rightarrow> string \<Rightarrow> state \<Rightarrow> (error + 'a) \<times> state" where
  "read_with reader path s =
     (case read_file s path of
        None \<Rightarrow> (Inl FileNotFoundError, s)
      | Some text \<Rightarrow> (reader text, s))"

text \<open>The first lines of every \<^verbatim>\<open>get\<close>: \<^verbatim>\<open>if not isfile(dataset_path): cls.download()\<close>.\<close>

definition fetch_if_absent ::
  "'c env \<Rightarrow> dataset_class \<Rightarrow> string \<Rightarrow> state \<Rightarrow> (error + unit) \<times> state" where
  "fetch_if_absent E cls dataset_path s =
     (if \<not> isfile s dataset_path then download E cls s else (Inr (), s))"

definition split_result ::
  "'c env \<Rightarrow> 'c frame \<Rightarrow> 'c series \<Rightarrow> error + 'c get_result" where
  "split_result E X y =
     (case train_test_split (rng E) X y test_size of
        Inl e \<Rightarrow> Inl e
      | Inr (X_train, X_test, y_train, y_test) \<Rightarrow>
          Inr (Splits (X_train, Column y_train) (X_test, Column y_test)))"

text \<open>
  \<^verbatim>\<open>y = df[df.columns[-1]]\<close>, \<^verbatim>\<open>X = df[df.columns[:-1]]\<close>, then the split; the labels
  of a frame read with \<^verbatim>\<open>header=None\<close> are distinct, so a label selects one column.
\<close>

definition split_last_column :: "'c env \<Rightarrow> 'c frame \<Rightarrow> error + 'c get_result" where
  "split_last_column E df =
     (case cols df of
        [] \<Rightarrow> Inl IndexError
      | c # cs \<Rightarrow>
          (let y = column df (snd (last (c # cs)));
               X = df\<lparr>cols := butlast (c # cs)\<rparr>
           in split_result E X y))"

definition csv_get ::
  "'c env \<Rightarrow> dataset_class \<Rightarrow> string \<Rightarrow> state \<Rightarrow> (error + 'c get_result) \<times> state" where
  "csv_get E cls sep =
     seq (pure (getattr (filename cls)))
       (\<lambda>fname. let dataset_path = joinpath (workdir E) [fname] in
          seq (fetch_if_absent E cls dataset_path)
            (\<lambda>_. seq (read_with (read_csv E sep 0) dataset_path)
               (\<lambda>p. pure (split_last_column E (frame_of p)))))"

definition StatlogAustralianDataset_get ::
  "'c env \<Rightarrow> state \<Rightarrow> (error + 'c get_result) \<times> state" where
  "StatlogAustralianDataset_get E = csv_get E StatlogAustralianDataset '' ''"

definition StatlogGermanDataset_get ::
  "'c env \<Rightarrow> state \<Rightarrow> (error + 'c get_result) \<times> state" where
  "StatlogGermanDataset_get E = csv_get E StatlogGermanDataset [CHR 0x5C, CHR ''s'', CHR ''+'']"

text \<open>
  \<^verbatim>\<open>DefaultCreditCardDataset\<close>: under a two-level header, \<^verbatim>\<open>df[key]\<close> is the columns
  whose first level is \<open>key\<close>, labelled by their second level, and a key that selects
  nothing is a \<^verbatim>\<open>KeyError\<close>.
\<close>

fun under :: "string \<Rightarrow> (label \<times> 'a) list \<Rightarrow> (string \<times> 'a) list" where
  "under key [] = []"
| "under key ((Multi a b, f) # cs) = (if a = key then (b, f) # under key cs else under key cs)"
| "under key (_ # cs) = under key cs"

fun select_under :: "string list \<Rightarrow> (label \<times> 'a) list \<Rightarrow> error + (label \<times> 'a) list" where
  "select_under [] cs = Inr []"
| "select_under (key # keys) cs =
     (case under key cs of
        [] \<Rightarrow> Inl KeyError
      | sub \<Rightarrow>
          (case select_under keys cs of
             Inl e \<Rightarrow> Inl e
           | Inr rest \<Rightarrow> Inr (map (\<lambda>(b, f). (Name b, f)) sub @ rest)))"

definition credit_feature_keys :: "string list" where
  "credit_feature_keys =
     [''X1'', ''X2'', ''X3'', ''X4'', ''X5'', ''X6'', ''X7'', ''X8'', ''X9'', ''X10'', ''X11'',
      ''X12'', ''X13'', ''X14'', ''X15'', ''X16'', ''X17'', ''X18'', ''X19'', ''X20'', ''X21'',
      ''X22'', ''X23'']"

definition split_credit :: "'c env \<Rightarrow> 'c frame \<Rightarrow> error + 'c get_result" where
  "split_credit E df =
     (case under ''Y'' (cols df) of
        [] \<Rightarrow> Inl KeyError
      | (b, f) # _ \<Rightarrow>
          (case select_under credit_feature_keys (cols df) of
             Inl e \<Rightarrow> Inl e
           | Inr xs \<Rightarrow> split_result E (df\<lparr>cols := xs\<rparr>) (column df f)))"

definition DefaultCreditCardDataset_get ::
  "'c env \<Rightarrow> state \<Rightarrow> (error + 'c get_result) \<times> state" where
  "DefaultCreditCardDataset_get E =
     seq (pure (getattr (filename DefaultCreditCardDataset)))
       (\<lambda>fname. let dataset_path = joinpath (workdir E) [fname] in
          seq (fetch_if_absent E DefaultCreditCardDataset dataset_path)
            (\<lambda>_. seq (read_with (read_excel E) dataset_path)
               (\<lambda>p. pure (split_credit E (frame_of p)))))"

text \<open>\<^verbatim>\<open>AdultDataset\<close>: the train and the test rows come from two files.\<close>

definition get_raw :: "'c env \<Rightarrow> state \<Rightarrow> (error + 'c frame \<times> 'c frame) \<times> state" where
  "get_raw E =
     seq (pure (getattr (filenames AdultDataset)))
       (\<lambda>fnames. seq (pure (item fnames 0))
          (\<lambda>fname0. let dataset_path = joinpath (workdir E) [fname0] in
             seq (fetch_if_absent E AdultDataset dataset_path)
               (\<lambda>_. seq (read_with (read_csv E '', '' 0) dataset_path)
                  (\<lambda>p_train. seq (pure (item fnames 1))
                     (\<lambda>fname1.
                        seq (read_with (read_csv E '', '' 1) (joinpath (workdir E) [fname1]))
                          (\<lambda>p_test. pure (Inr (frame_of p_train, frame_of p_test))))))))"

definition parse_dataset :: "'c frame \<Rightarrow> error + 'c frame \<times> 'c series" where
  "parse_dataset df =
     (case item (cols df) 14 of
        Inl e \<Rightarrow> Inl e
      | Inr (l, f) \<Rightarrow>
          (let X = take 14 (cols df) in
           if length X \<noteq> length AdultDataset_feature_names then Inl ValueError
           else Inr (df\<lparr>cols := zip (map Name AdultDataset_feature_names) (map snd X)\<rparr>,
                     column df f)))"

fun index_of :: "'a \<Rightarrow> 'a list \<Rightarrow> nat option" where
  "index_of x [] = None"
| "index_of x (y # ys) = (if x = y then Some 0 else map_option Suc (index_of x ys))"

text \<open>\<^verbatim>\<open>LabelEncoder.transform\<close>: the position of each label among the classes; an unseen
  label is a \<^verbatim>\<open>ValueError\<close>.\<close>

fun le_transform :: "'a list \<Rightarrow> 'a list \<Rightarrow> error + nat list" where
  "le_transform classes [] = Inr []"
| "le_transform classes (y # ys) =
     (case index_of y classes of
        None \<Rightarrow> Inl ValueError
      | Some i \<Rightarrow>
          (case le_transform classes ys of
             Inl e \<Rightarrow> Inl e
           | Inr codes \<Rightarrow> Inr (i # codes)))"

definition str_slice :: "'c env \<Rightarrow> 'c series \<Rightarrow> error + 'c series" where
  "str_slice E y =
     (if has_str E (series_values y) then Inr (y\<lparr>s_at := (\<lambda>i. str_butlast E (s_at y i))\<rparr>)
      else Inl AttributeError)"

definition AdultDataset_get :: "'c env \<Rightarrow> state \<Rightarrow> (error + 'c get_result) \<times> state" where
  "AdultDataset_get E =
     seq (get_raw E)
       (\<lambda>(df_train, df_test). seq (pure (parse_dataset df_train))
          (\<lambda>(X_train, y_train). seq (pure (parse_dataset df_test))
             (\<lambda>(X_test, y_test). seq (pure (le_classes E (series_values y_train)))
                (\<lambda>classes. seq (pure (le_transform classes (series_values y_train)))
                   (\<lambda>y_train_codes. seq (pure (str_slice E y_test))
                      (\<lambda>y_test_cut. seq (pure (le_transform classes (series_values y_test_cut)))
                         (\<lambda>y_test_codes. pure (Inr (Splits (X_train, Encoded y_train_codes)
                                                        (X_test, Encoded y_test_codes))))))))))"

text \<open>
  \<^verbatim>\<open>SteelPlatesFaultsDataset\<close>: the frame is returned as it was read; the second file
  gives the class attribute \<^verbatim>\<open>feature_names\<close>, its text stripped and split at newlines.
\<close>

definition is_space :: "char \<Rightarrow> bool" where
  "is_space c = (of_char c \<in> {9, 10, 11, 12, 13, 28, 29, 30, 31, 32 :: nat})"

definition strip :: "string \<Rightarrow> string" where
  "strip t = rev (dropWhile is_space (rev (dropWhile is_space t)))"

fun split_at :: "char \<Rightarrow> string \<Rightarrow> string list" where
  "split_at c [] = [[]]"
| "split_at c (x # xs) =
     (if x = c then [] # split_at c xs
      else (case split_at c xs of w # ws \<Rightarrow> (x # w) # ws | [] \<Rightarrow> [[x]]))"

definition SteelPlatesFaultsDataset_get ::
  "'c env \<Rightarrow> state \<Rightarrow> (error + 'c get_result) \<times> state" where
  "SteelPlatesFaultsDataset_get E =
     seq (pure (getattr (filenames SteelPlatesFaultsDataset)))
       (\<lambda>fnames. seq (pure (item fnames 0))
          (\<lambda>fname0. let dataset_path = joinpath (workdir E) [fname0] in
             seq (fetch_if_absent E SteelPlatesFaultsDataset dataset_path)
               (\<lambda>_. seq (read_with (read_csv E [CHR 0x09] 0) dataset_path)
                  (\<lambda>p. seq (pure (item fnames 1))
                     (\<lambda>fname1. seq (read_with Inr (joinpath (workdir E) [fname1]))
                        (\<lambda>text s. (Inr (Whole (frame_of p)),
                           s\<lparr>feature_names := Some (split_at (CHR 0x0A) (strip text))\<rparr>)))))))"

text \<open>\<^verbatim>\<open>SeismicBumps\<close>: the frame is returned with its \<^verbatim>\<open>class\<close> column made numeric and
  its object columns decoded.\<close>

definition from_values :: "nat list \<Rightarrow> 'c list \<Rightarrow> (nat \<Rightarrow> 'c) \<Rightarrow> nat \<Rightarrow> 'c" where
  "from_values rows vs f i = (case map_of (zip rows vs) i of None \<Rightarrow> f i | Some v \<Rightarrow> v)"

definition seismic_frame :: "'c env \<Rightarrow> 'c frame \<Rightarrow> error + 'c get_result" where
  "seismic_frame E df =
     (case map_of (cols df) (Name ''class'') of
        None \<Rightarrow> Inl KeyError
      | Some f \<Rightarrow>
          (case to_numeric E (map f (index df)) of
             Inl e \<Rightarrow> Inl e
           | Inr vs \<Rightarrow>
               (let df1 = df\<lparr>cols := set_column (Name ''class'') (from_values (index df) vs f)
                                       (cols df)\<rparr>;
                    str_df = df1\<lparr>cols := filter (\<lambda>(l, g). is_object E (map g (index df1)))
                                           (cols df1)\<rparr>
                in case decode_utf8 E str_df of
                     Inl e \<Rightarrow> Inl e
                   | Inr decoded \<Rightarrow>
                       Inr (Whole (df1\<lparr>cols := foldl (\<lambda>cs (l, g). set_column l g cs)
                                                 (cols df1) (cols decoded)\<rparr>)))))"

definition SeismicBumps_get :: "'c env \<Rightarrow> state \<Rightarrow> (error + 'c get_result) \<times> state" where
  "SeismicBumps_get E =
     seq (pure (getattr (filename SeismicBumps)))
       (\<lambda>fname. let dataset_path = joinpath (workdir E) [fname] in
          seq (fetch_if_absent E SeismicBumps dataset_path)
            (\<lambda>_. seq (read_with (loadarff E) dataset_path)
               (\<lambda>p. pure (seismic_frame E (frame_of p)))))"

text \<open>\<^verbatim>\<open>cls.get()\<close> for each class of the module.\<close>

fun get :: "'c env \<Rightarrow> dataset_class \<Rightarrow> state \<Rightarrow> (error + 'c get_result) \<times> state" where
  "get E DefaultCreditCardDataset = DefaultCreditCardDataset_get E"
| "get E StatlogAustralianDataset = StatlogAustralianDataset_get E"
| "get E StatlogGermanDataset = StatlogGermanDataset_get E"
| "get E AdultDataset = AdultDataset_get E"
| "get E SteelPlatesFaultsDataset = SteelPlatesFaultsDataset_get E"
| "get E SeismicBumps = SeismicBumps_get E"

section \<open>The results aggregator of \<^verbatim>\<open>utils/training.py\<close>\<close>

subsection \<open>\<^verbatim>\<open>get_results_table\<close>\<close>

text \<open>
  \<^verbatim>\<open>glob('results/*/*/evaluation.json')\<close>: the files, in the order the file system lists
  them, whose path has exactly these four segments, a \<^verbatim>\<open>*\<close> standing for a non-empty
  name that does not start with a dot.
\<close>

definition glob_match :: "string \<Rightarrow> bool" where
  "glob_match p =
     (case split_at (CHR ''/'') p of
        [r, d, m, f] \<Rightarrow>
          r = ''results'' \<and> d \<noteq> [] \<and> hd d \<noteq> CHR ''.'' \<and> m \<noteq> [] \<and> hd m \<noteq> CHR ''.'' \<and>
          f = ''evaluation.json''
      | _ \<Rightarrow> False)"

definition glob_results :: "state \<Rightarrow> string list" where
  "glob_results s = filter glob_match (remdups (map fst (files s)))"

text \<open>
  The compiled pattern
  \<^verbatim>\<open>RESULTS_DIR + r'/([a-zA-Z0-9]+)/([a-zA-Z0-9]+)/evaluation.json'\<close> applied with
  \<^verbatim>\<open>match\<close>: anchored at the start only, each group the longest run of ASCII letters
  and digits (the character after a group is a slash, so no shorter run can match), and
  the unescaped dot matching any character but a newline. The result is the two groups,
  or \<open>None\<close>.
\<close>

definition is_alnum :: "char \<Rightarrow> bool" where
  "is_alnum c =
     (let n = (of_char c :: nat) in 48 \<le> n \<and> n \<le> 57 \<or> 65 \<le> n \<and> n \<le> 90 \<or> 97 \<le> n \<and> n \<le> 122)"

fun strip_prefix :: "string \<Rightarrow> string \<Rightarrow> string option" where
  "strip_prefix [] t = Some t"
| "strip_prefix (c # cs) [] = None"
| "strip_prefix (c # cs) (x # t) = (if c = x then strip_prefix cs t else None)"

definition pattern_match :: "string \<Rightarrow> (string \<times> string) option" where
  "pattern_match p =
     (case strip_prefix (RESULTS_DIR @ ''/'') p of
        None \<Rightarrow> None
      | Some r1 \<Rightarrow>
          (let d = takeWhile is_alnum r1 in
           if d = [] then None
           else case strip_prefix ''/'' (dropWhile is_alnum r1) of
                  None \<Rightarrow> None
                | Some r2 \<Rightarrow>
                    (let m = takeWhile is_alnum r2 in
                     if m = [] then None
                     else case strip_prefix ''/evaluation'' (dropWhile is_alnum r2) of
                            None \<Rightarrow> None
                          | Some r3 \<Rightarrow>
                              (case r3 of
                                 [] \<Rightarrow> None
                               | c # r4 \<Rightarrow>
                                   if c \<noteq> CHR 0x0A \<and> strip_prefix ''json'' r4 \<noteq> None
                                   then Some (d, m) else None))))"

text \<open>
  The flattening of the hyper-parameters: \<^verbatim>\<open>f"{k}={v}"\<close> when the type of the value is
  \<^verbatim>\<open>str\<close>, \<^verbatim>\<open>list\<close> or \<^verbatim>\<open>NoneType\<close>, and \<^verbatim>\<open>f"{k}={v:.2f}"\<close> otherwise; the items are
  joined with commas.
\<close>

fun plain :: "json \<Rightarrow> bool" where
  "plain (JStr _) = True"
| "plain (JList _) = True"
| "plain JNull = True"
| "plain _ = False"

definition hp_item :: "'x lib \<Rightarrow> string \<Rightarrow> json \<Rightarrow> error + string" where
  "hp_item L k v =
     (case py_format L v (if plain v then [] else ''.2f'') of
        Inl e \<Rightarrow> Inl e
      | Inr t \<Rightarrow> Inr (k @ ''='' @ t))"

fun hp_items :: "'x lib \<Rightarrow> (string \<times> json) list \<Rightarrow> error + string list" where
  "hp_items L [] = Inr []"
| "hp_items L ((k, v) # kvs) =
     (case hp_item L k v of
        Inl e \<Rightarrow> Inl e
      | Inr t \<Rightarrow> (case hp_items L kvs of Inl e \<Rightarrow> Inl e | Inr ts \<Rightarrow> Inr (t # ts)))"

fun join :: "string \<Rightarrow> string list \<Rightarrow> string" where
  "join sep [] = []"
| "join sep [t] = t"
| "join sep (t # ts) = t @ sep @ join sep ts"

text \<open>\<^verbatim>\<open>d.items()\<close> exists on a dict only.\<close>

fun py_items :: "json \<Rightarrow> error + (string \<times> json) list" where
  "py_items (JObj kvs) = Inr kvs"
| "py_items _ = Inl AttributeError"

text \<open>
  The body of the loop for one file: \<^verbatim>\<open>groups()\<close> on a failed match is an
  \<^verbatim>\<open>AttributeError\<close>; the loaded dict gets its \<^verbatim>\<open>hp\<close> replaced by the flattened string
  and the keys \<^verbatim>\<open>dataset\<close> and \<^verbatim>\<open>model\<close> set.
\<close>

definition table_row :: "'x lib \<Rightarrow> state \<Rightarrow> string \<Rightarrow> error + (string \<times> json) list" where
  "table_row L s result_file =
     (case pattern_match result_file of
        None \<Rightarrow> Inl AttributeError
      | Some (dataset, model) \<Rightarrow>
          (case read_file s result_file of
             None \<Rightarrow> Inl FileNotFoundError
           | Some text \<Rightarrow>
               (case json_load L text of
                  Inl e \<Rightarrow> Inl e
                | Inr results \<Rightarrow>
                    (case py_getitem results ''hp'' of
                       Inl e \<Rightarrow> Inl e
                     | Inr hp \<Rightarrow>
                         (case py_items hp of
                            Inl e \<Rightarrow> Inl e
                          | Inr kvs \<Rightarrow>
                              (case hp_items L kvs of
                                 Inl e \<Rightarrow> Inl e
                               | Inr ts \<Rightarrow>
                                   (case py_items results of
                                      Inl e \<Rightarrow> Inl e
                                    | Inr entries \<Rightarrow>
                                        Inr (AList.update ''model'' (JStr model)
                                              (AList.update ''dataset'' (JStr dataset)
                                                (AList.update ''hp'' (JStr (join '','' ts))
                                                   entries))))))))))"

fun table_rows ::
  "'x lib \<Rightarrow> state \<Rightarrow> string list \<Rightarrow> error + (string \<times> json) list list" where
  "table_rows L s [] = Inr []"
| "table_rows L s (result_file # result_files) =
     (case table_row L s result_file of
        Inl e \<Rightarrow> Inl e
      | Inr row \<Rightarrow>
          (case table_rows L s result_files of
             Inl e \<Rightarrow> Inl e
           | Inr rows \<Rightarrow> Inr (row # rows)))"

text \<open>
  A \<^verbatim>\<open>DataFrame\<close> of results: its column labels and its rows, each row giving the cell
  of every column. Built from dicts and restricted to a list of columns: a column that
  no dict has is a \<^verbatim>\<open>KeyError\<close>, and a dict without a key has \<^verbatim>\<open>NaN\<close> there.
\<close>

record table =
  tcolumns :: "string list"
  trows :: "(string \<times> json) list list"

definition cell :: "(string \<times> json) list \<Rightarrow> string \<Rightarrow> json" where
  "cell row c = (case map_of row c of None \<Rightarrow> JFloat NaN | Some v \<Rightarrow> v)"

definition select_columns :: "string list \<Rightarrow> (string \<times> json) list list \<Rightarrow> error + table" where
  "select_columns columns dicts =
     (if list_ex (\<lambda>c. list_all (\<lambda>d. map_of d c = None) dicts) columns then Inl KeyError
      else Inr \<lparr>tcolumns = columns,
                trows = map (\<lambda>d. map (\<lambda>c. (c, cell d c)) columns) dicts\<rparr>)"

definition results_columns :: "string list" where
  "results_columns = [''dataset'', ''model'', ''score'', ''val_score'', ''train_time'',
                      ''evaluation_time'', ''tuning_n_trials'', ''hp'']"

definition get_results_table :: "'x lib \<Rightarrow> state \<Rightarrow> error + table" where
  "get_results_table L s =
     (case table_rows L s (glob_results s) of
        Inl e \<Rightarrow> Inl e
      | Inr result_table \<Rightarrow> select_columns results_columns result_table)"

subsection \<open>\<^verbatim>\<open>get_model_ranking\<close>\<close>

text \<open>
  The argument of \<^verbatim>\<open>get_model_ranking\<close> is a reference to a \<^verbatim>\<open>DataFrame\<close> object that
  the caller keeps; the store maps references to tables, and the function returns the
  store it leaves.
\<close>

type_synonym store = "nat \<Rightarrow> table"

text \<open>
  What \<^verbatim>\<open>pandas\<close> leaves open to this model: the order in which \<^verbatim>\<open>groupby\<close> lists
  the group keys and the order \<^verbatim>\<open>sort_values\<close> gives to equal values.
\<close>

record pandas =
  sorted_keys :: "json list \<Rightarrow> json list"
  sort_values :: "(json \<times> pyfloat) list \<Rightarrow> (json \<times> pyfloat) list"

text \<open>
  Group keys: a list or a dict is not hashable (\<^verbatim>\<open>TypeError\<close>), and rows whose key is
  missing (\<^verbatim>\<open>None\<close> or \<^verbatim>\<open>NaN\<close>) belong to no group. Scores: numbers, a missing score
  being \<^verbatim>\<open>NaN\<close>; a column of other objects cannot be ranked.
\<close>

fun hashable :: "json \<Rightarrow> bool" where
  "hashable (JList _) = False"
| "hashable (JObj _) = False"
| "hashable _ = True"

definition is_null :: "json \<Rightarrow> bool" where
  "is_null v = (v = JNull \<or> v = JFloat NaN)"

definition score_value :: "json \<Rightarrow> error + pyfloat" where
  "score_value v =
     (if v = JNull then Inr NaN
      else case as_num v of None \<Rightarrow> Inl TypeError | Some f \<Rightarrow> Inr f)"

fun score_values :: "json list \<Rightarrow> error + pyfloat list" where
  "score_values [] = Inr []"
| "score_values (v # vs) =
     (case score_value v of
        Inl e \<Rightarrow> Inl e
      | Inr f \<Rightarrow> (case score_values vs of Inl e \<Rightarrow> Inl e | Inr fs \<Rightarrow> Inr (f # fs)))"

text \<open>
  \<^verbatim>\<open>groupby(key)[column].rank(ascending=False)\<close> with the default method: within the
  rows of the same key, the rank of a value is the average of the positions that the
  values equal to it take in descending order; a missing value or key has rank \<^verbatim>\<open>NaN\<close>.
\<close>

definition rank_in_group :: "(json \<times> pyfloat) list \<Rightarrow> json \<Rightarrow> pyfloat \<Rightarrow> pyfloat" where
  "rank_in_group keyed k v =
     (if is_null k \<or> v = NaN then NaN
      else let group = map snd (filter (\<lambda>(k', w). \<not> is_null k' \<and> py_same k' k \<and> w \<noteq> NaN) keyed)
           in Finite (of_nat (length (filter (float_lt v) group)) +
                      (of_nat (length (filter (float_eq v) group)) + 1) / 2))"

text \<open>\<^verbatim>\<open>df[label] = values\<close> on a table: the column is replaced, or appended when new.\<close>

definition assign_column :: "string \<Rightarrow> json list \<Rightarrow> table \<Rightarrow> table" where
  "assign_column c vs t =
     \<lparr>tcolumns = (if c \<in> set (tcolumns t) then tcolumns t else tcolumns t @ [c]),
      trows = map (\<lambda>(row, v). AList.update c v row) (zip (trows t) vs)\<rparr>"

text \<open>\<^verbatim>\<open>groupby(key)[column].mean()\<close>: one mean per key, missing values skipped.\<close>

fun group_keys :: "json list \<Rightarrow> json list" where
  "group_keys [] = []"
| "group_keys (k # ks) =
     (if is_null k then group_keys ks
      else k # filter (\<lambda>k'. \<not> py_same k' k) (group_keys ks))"

definition mean_of :: "pyfloat list \<Rightarrow> pyfloat" where
  "mean_of fs =
     (let present = concat (map (\<lambda>f. case f of Finite r \<Rightarrow> [r] | _ \<Rightarrow> []) fs)
      in if present = [] then NaN else Finite (sum_list present / of_nat (length present)))"

definition get_model_ranking ::
  "pandas \<Rightarrow> nat \<Rightarrow> store \<Rightarrow> (error + (json \<times> pyfloat) list) \<times> store" where
  "get_model_ranking P results h =
     (let t = h results in
      if ''dataset'' \<notin> set (tcolumns t) \<or> ''score'' \<notin> set (tcolumns t) then (Inl KeyError, h)
      else
        let keys = map (\<lambda>row. cell row ''dataset'') (trows t) in
        if \<not> list_all hashable keys then (Inl TypeError, h)
        else
          case score_values (map (\<lambda>row. cell row ''score'') (trows t)) of
            Inl e \<Rightarrow> (Inl e, h)
          | Inr scores \<Rightarrow>
              (let keyed = zip keys scores;
                   ranks = map (\<lambda>(k, v). rank_in_group keyed k v) keyed;
                   ranked = assign_column ''model_rank'' (map JFloat ranks) t;
                   h' = h(results := ranked)
               in if ''model'' \<notin> set (tcolumns ranked) then (Inl KeyError, h')
                  else
                    let models = map (\<lambda>row. cell row ''model'') (trows ranked) in
                    if \<not> list_all hashable models then (Inl TypeError, h')
                    else
                      (Inr (sort_values P
                              (map (\<lambda>k. (k, mean_of (map snd (filter (\<lambda>(k', r). py_same k' k)
                                                                 (zip models ranks)))))
                                 (sorted_keys P (group_keys models)))),
                       h')))"

section \<open>Notions used to state the results\<close>

text \<open>The paths of the two files kept for a (dataset, model) pair.\<close>

definition tuning_path :: "'d dataset \<Rightarrow> ('d, 'x, 'e) model \<Rightarrow> string" where
  "tuning_path dataset model =
     joinpath (joinpath RESULTS_DIR [ds_name dataset, model_name model]) [''tuning.json'']"

definition evaluation_path :: "'d dataset \<Rightarrow> ('d, 'x, 'e) model \<Rightarrow> string" where
  "evaluation_path dataset model =
     joinpath (joinpath RESULTS_DIR [ds_name dataset, model_name model]) [''evaluation.json'']"

text \<open>
  A validation score is strictly better than another: strictly greater when the metric is
  maximized, strictly less when it is minimized.
\<close>

definition strictly_better :: "bool \<Rightarrow> pyfloat \<Rightarrow> pyfloat \<Rightarrow> bool" where
  "strictly_better maximized new old =
     (if maximized then float_lt old new else float_lt new old)"

text \<open>The file that holds the saved weights of the designated model.\<close>

definition weights_path :: string where
  "weights_path = joinpath RESULTS_DIR [''Cifar10CustomModel-weights.pkl'']"

text \<open>
  The last part of \<^verbatim>\<open>evaluate_model\<close>: score the estimator on the test split and
  return the score with the training time already recorded and the evaluation time.
\<close>

definition scored ::
  "'x lib \<Rightarrow> ('d, 'x, 'e) model \<Rightarrow> 'd dataset \<Rightarrow> 'x list \<Rightarrow> 'e \<Rightarrow> json \<Rightarrow>
   state \<Rightarrow> (error + json \<times> json \<times> json) \<times> state" where
  "scored L model dataset test_data estimator train_time =
     seq (score_estimator L model dataset test_data estimator)
       (\<lambda>(score, evaluation_time). pure (Inr (score, train_time, evaluation_time)))"

text \<open>
  An exception \<open>e\<close> reaches the outer \<^verbatim>\<open>try\<close> of the iteration for one (dataset, model)
  pair, leaving the state \<open>s'\<close>: it is raised by \<^verbatim>\<open>get_tuning_results\<close> and is not the
  \<^verbatim>\<open>FileNotFoundError\<close> caught around that call, or it is raised by the timed evaluation
  and is not the \<^verbatim>\<open>TimeoutError\<close> caught around that call, or it is raised, whatever its
  class, where no inner handler stands: by the message of the timeout handler, by
  \<^verbatim>\<open>save_evaluation_results\<close>, or by the progress report.
\<close>

definition reaches_outer_try ::
  "'x lib \<Rightarrow> int \<Rightarrow> 'd dataset \<Rightarrow> 'd \<Rightarrow> 'd \<Rightarrow> ('d, 'x, 'e) model \<Rightarrow>
   state \<Rightarrow> error \<Rightarrow> state \<Rightarrow> bool" where
  "reaches_outer_try L T dataset train test model s e s' =
     (let s0 = print (''Model: '' @ model_name model) s in
      get_tuning_results L dataset model s0 = (Inl e, s') \<and> e \<noteq> FileNotFoundError \<or>
      (\<exists>tuning s1.
         get_tuning_results L dataset model s0 = (Inr tuning, s1) \<and>
         (timed_evaluation L T dataset train test model tuning s1 = (Inl e, s') \<and>
            e \<noteq> TimeoutError \<or>
          (\<exists>s2. timed_evaluation L T dataset train test model tuning s1 =
                   (Inl TimeoutError, s2) \<and>
                py_format L (JInt T) [] = Inl e \<and> s' = s2) \<or>
          (\<exists>score train_time evaluation_time s2.
             timed_evaluation L T dataset train test model tuning s1 =
               (Inr (score, train_time, evaluation_time), s2) \<and>
             (save_evaluation_results L dataset model tuning score train_time
                evaluation_time s2 = (Inl e, s') \<or>
              (\<exists>u s3. save_evaluation_results L dataset model tuning score train_time
                         evaluation_time s2 = (Inr u, s3) \<and>
                       report_results L dataset tuning score train_time evaluation_time s3 =
                         (Inl e, s')))))))"

text \<open>
  The file whose presence a dataset class tests before it downloads, and the resource
  fetched first: the only declared one, or the first of the declared list.
\<close>

definition first_file :: "dataset_class \<Rightarrow> string" where
  "first_file cls =
     (case filename cls of
        Some f \<Rightarrow> f
      | None \<Rightarrow> (case filenames cls of Some (f # _) \<Rightarrow> f | _ \<Rightarrow> []))"

definition first_url :: "dataset_class \<Rightarrow> string" where
  "first_url cls =
     (case url cls of
        Some u \<Rightarrow> u
      | None \<Rightarrow> (case urls cls of Some (u # _) \<Rightarrow> u | _ \<Rightarrow> []))"

definition cache_path :: "'c env \<Rightarrow> dataset_class \<Rightarrow> string" where
  "cache_path E cls = joinpath (workdir E) [first_file cls]"

text \<open>The reader \<^verbatim>\<open>get\<close> applies to the first file of each class.\<close>

fun reader :: "'c env \<Rightarrow> dataset_class \<Rightarrow> string \<Rightarrow> error + 'c parsed" where
  "reader E DefaultCreditCardDataset = read_excel E"
| "reader E StatlogAustralianDataset = read_csv E '' '' 0"
| "reader E StatlogGermanDataset = read_csv E [CHR 0x5C, CHR ''s'', CHR ''+''] 0"
| "reader E AdultDataset = read_csv E '', '' 0"
| "reader E SteelPlatesFaultsDataset = read_csv E [CHR 0x09] 0"
| "reader E SeismicBumps = loadarff E"

text \<open>The columns \<^verbatim>\<open>get\<close> selects are there: a label column and the feature columns.\<close>

fun has_columns :: "dataset_class \<Rightarrow> (label \<times> 'a) list \<Rightarrow> bool" where
  "has_columns DefaultCreditCardDataset cs =
     (under ''Y'' cs \<noteq> [] \<and> list_all (\<lambda>key. under key cs \<noteq> []) credit_feature_keys)"
| "has_columns _ cs = (cs \<noteq> [])"

text \<open>
  Shapes of a result. The labels go with the features row by row. A quarter split of
  \<open>n\<close> rows: two (features, labels) pairs whose row labels are disjoint and together
  are the \<open>n\<close> row labels of the parsed table, the test part holding \<open>\<lceil>n / 4\<rceil>\<close> of them.
  A split by files: the train part is all \<open>n1\<close> rows of one table and the test part
  all \<open>n2\<close> rows of another.
\<close>

fun aligned :: "'c frame \<Rightarrow> 'c labels \<Rightarrow> bool" where
  "aligned X (Column y) = (s_index y = index X)"
| "aligned X (Encoded codes) = (length codes = length (index X))"

fun row_counts :: "'c get_result \<Rightarrow> (nat \<times> nat) option" where
  "row_counts (Splits (X_train, y_train) (X_test, y_test)) =
     Some (length (index X_train), length (index X_test))"
| "row_counts (Whole df) = None"

fun is_quarter_split :: "nat \<Rightarrow> 'c get_result \<Rightarrow> bool" where
  "is_quarter_split n (Splits (X_train, y_train) (X_test, y_test)) =
     (distinct (index X_train @ index X_test) \<and>
      set (index X_train @ index X_test) = {0..<n} \<and>
      length (index X_train) + length (index X_test) = n \<and>
      length (index X_test) = nat \<lceil>(of_nat n :: rat) / 4\<rceil> \<and>
      aligned X_train y_train \<and> aligned X_test y_test)"
| "is_quarter_split n (Whole df) = False"

fun is_file_split :: "nat \<Rightarrow> nat \<Rightarrow> 'c get_result \<Rightarrow> bool" where
  "is_file_split n1 n2 (Splits (X_train, y_train) (X_test, y_test)) =
     (index X_train = [0..<n1] \<and> index X_test = [0..<n2] \<and>
      aligned X_train y_train \<and> aligned X_test y_test)"
| "is_file_split n1 n2 (Whole df) = False"

text \<open>
  An evaluation file as the aggregator should see it: the names of its dataset and model
  directories, the dict it holds, the hyper-parameters in it and the items they should
  flatten to. The format of a value by its type: a \<^verbatim>\<open>str\<close>, a \<^verbatim>\<open>list\<close> and \<^verbatim>\<open>None\<close>
  are shown as they print, every other type with two decimals. An item is formatted when
  it is \<^verbatim>\<open>key=\<close> followed by the value in the format of its type. The file is stored
  when both names are non-empty runs of ASCII letters and digits, the file at
  \<^verbatim>\<open>results/<dataset>/<model>/evaluation.json\<close> loads as that dict, its \<^verbatim>\<open>hp\<close> entry is
  the dict of the hyper-parameters, and the items are these, formatted, in order. Its row
  is the dict with the three keys the aggregator sets.
\<close>

record entry =
  e_dataset :: string
  e_model :: string
  e_doc :: "(string \<times> json) list"
  e_hp :: "(string \<times> json) list"
  e_items :: "string list"

definition entry_path :: "entry \<Rightarrow> string" where
  "entry_path e = ''results/'' @ e_dataset e @ ''/'' @ e_model e @ ''/evaluation.json''"

fun format_of :: "json \<Rightarrow> string" where
  "format_of (JStr t) = []"
| "format_of (JList vs) = []"
| "format_of JNull = []"
| "format_of (JBool b) = ''.2f''"
| "format_of (JInt i) = ''.2f''"
| "format_of (JFloat x) = ''.2f''"
| "format_of (JObj kvs) = ''.2f''"

definition formatted :: "'x lib \<Rightarrow> string \<times> json \<Rightarrow> string \<Rightarrow> bool" where
  "formatted L kv t =
     (case py_format L (snd kv) (format_of (snd kv)) of
        Inl e \<Rightarrow> False
      | Inr f \<Rightarrow> t = fst kv @ ''='' @ f)"

definition entry_stored :: "'x lib \<Rightarrow> state \<Rightarrow> entry \<Rightarrow> bool" where
  "entry_stored L s e =
     (e_dataset e \<noteq> [] \<and> list_all is_alnum (e_dataset e) \<and>
      e_model e \<noteq> [] \<and> list_all is_alnum (e_model e) \<and>
      (case read_file s (entry_path e) of
         None \<Rightarrow> False
       | Some text \<Rightarrow> json_load L text = Inr (JObj (e_doc e))) \<and>
      map_of (e_doc e) ''hp'' = Some (JObj (e_hp e)) \<and>
      list_all2 (formatted L) (e_hp e) (e_items e))"

definition entry_row :: "entry \<Rightarrow> (string \<times> json) list" where
  "entry_row e =
     AList.update ''model'' (JStr (e_model e))
       (AList.update ''dataset'' (JStr (e_dataset e))
          (AList.update ''hp'' (JStr (join '','' (e_items e))) (e_doc e)))"

text \<open>
  The descending rank of a score among the scores of its dataset: one more than the
  number of strictly greater scores, ties sharing the average of their positions; a
  missing score has no rank.
\<close>

definition descending_rank :: "pyfloat list \<Rightarrow> pyfloat \<Rightarrow> pyfloat" where
  "descending_rank scores v =
     (if v = NaN then NaN
      else Finite (1 + of_nat (length (filter (float_lt v) scores)) +
                   (of_nat (length (filter (float_eq v) scores)) - 1) / 2))"

text \<open>The scores of the rows of a table that belong to a dataset.\<close>

definition dataset_scores :: "table \<Rightarrow> pyfloat list \<Rightarrow> json \<Rightarrow> pyfloat list" where
  "dataset_scores t scores d =
     map snd (filter (\<lambda>(row, w). cell row ''dataset'' = d) (zip (trows t) scores))"

section \<open>A small scenario\<close>

text \<open>
  One dataset \<open>D\<close> and one model \<open>M\<close> with tuned hyper-parameters and a stored evaluation
  whose validation score is \<open>1/2\<close>; the tuned validation score is \<open>3/4\<close>. Fitting takes
  200 seconds. The results below are exercised on it.
\<close>

definition demo_tuning :: json where
  "demo_tuning = JObj [(''hp'', JObj [(''n_estimators'', JInt 50)]),
                       (''score'', JFloat (Finite (3 / 4))), (''n_trials'', JInt 20)]"

definition demo_result :: "(string \<times> json) list" where
  "demo_result =
     [(''hp'', JObj [(''n_estimators'', JInt 50)]), (''score'', JFloat (Finite (4 / 5))),
      (''tuning_n_trials'', JInt 20), (''val_score'', JFloat (Finite (1 / 2))),
      (''train_time'', JFloat (Finite 3)), (''evaluation_time'', JFloat (Finite 1)),
      (''metric_used'', JStr ''accuracy'')]"

definition demo_lib :: "nat lib" where
  "demo_lib =
     \<lparr>json_load = (\<lambda>text.
        if text = ''TUNING'' then Inr demo_tuning
        else if text = ''STORED'' then Inr (JObj [(''val_score'', JFloat (Finite (1 / 2)))])
        else if text = ''RESULT'' then Inr (JObj demo_result)
        else Inl (LibraryError ''JSONDecodeError'')),
      json_dump = (\<lambda>doc. (''DUMPED'', None)),
      py_format = (\<lambda>v spec. Inr ''#''),
      compute_metric = (\<lambda>y_true y_pred name. (1, Inr (JFloat (Finite (9 / 10))))),
      compute_loss = (\<lambda>name values. (0, Inr (JFloat (Finite (- 9 / 10)))))\<rparr>"

definition demo_dataset :: "nat dataset" where
  "demo_dataset =
     \<lparr>ds_name = ''D'', ds_get = (\<lambda>s. (Inr [1, 2], s)), metric = ''accuracy'',
      is_metric_maximized = True, categorical_features = []\<rparr>"

definition demo_model :: "(nat, nat, nat) model" where
  "demo_model =
     \<lparr>model_name = ''M'',
      prepare_dataset = (\<lambda>train test cats. (2, Inr ([train, train], [test, test]))),
      build_estimator = (\<lambda>hp train_data. (1, Inr 0)),
      est_initialize = (\<lambda>e. (0, Inr e)),
      est_load_params = (\<lambda>e text. (1, Inr (Suc e))),
      est_fit = (\<lambda>e X y. (200, Inr (Suc e))),
      est_save_params = (\<lambda>e. (1, Inr ''WEIGHTS'')),
      est_save_partial = (\<lambda>e. None),
      est_predict = (\<lambda>e X. (1, Inr X))\<rparr>"

definition demo_state :: state where
  "demo_state =
     \<lparr>files = [(''results/D/M/tuning.json'', ''TUNING''),
               (''results/D/M/evaluation.json'', ''STORED'')],
      stdout = [], clock = 0, deadline = None, trace = [], feature_names = None\<rparr>"

text \<open>
  Variants: the designated model with its weights on disk, a model whose \<^verbatim>\<open>fit\<close> runs
  out of memory after five seconds, a model whose \<^verbatim>\<open>fit\<close> looks after five seconds for
  a file that is not there, a library whose \<^verbatim>\<open>json.load\<close> raises \<^verbatim>\<open>TimeoutError\<close>, and a
  state whose tuning file does not parse.
\<close>

definition demo_cifar :: "(nat, nat, nat) model" where
  "demo_cifar = demo_model\<lparr>model_name := ''Cifar10CustomModel''\<rparr>"

definition demo_cifar_state :: state where
  "demo_cifar_state =
     demo_state\<lparr>files := [(''results/Cifar10CustomModel-weights.pkl'', ''WEIGHTS'')]\<rparr>"

definition demo_oom :: "(nat, nat, nat) model" where
  "demo_oom = demo_model\<lparr>est_fit := (\<lambda>e X y. (5, Inl MemoryError))\<rparr>"

definition demo_no_input :: "(nat, nat, nat) model" where
  "demo_no_input = demo_model\<lparr>est_fit := (\<lambda>e X y. (5, Inl FileNotFoundError))\<rparr>"

definition demo_stalled_lib :: "nat lib" where
  "demo_stalled_lib = demo_lib\<lparr>json_load := (\<lambda>text. Inl TimeoutError)\<rparr>"

definition demo_garbled_state :: state where
  "demo_garbled_state = demo_state\<lparr>files := [(''results/D/M/tuning.json'', ''GARBLED'')]\<rparr>"

text \<open>
  For the aggregator: a results directory with one complete evaluation file, and one
  whose only evaluation file lies below a dataset directory named \<^verbatim>\<open>my_data\<close>.
\<close>

definition demo_results_state :: state where
  "demo_results_state = demo_state\<lparr>files := [(''results/D/M/evaluation.json'', ''RESULT'')]\<rparr>"

definition demo_underscore_state :: state where
  "demo_underscore_state =
     demo_state\<lparr>files := [(''results/my_data/M/evaluation.json'', ''RESULT'')]\<rparr>"

definition demo_entry :: entry where
  "demo_entry = \<lparr>e_dataset = ''D'', e_model = ''M'', e_doc = demo_result,
                  e_hp = [(''n_estimators'', JInt 50)], e_items = [''n_estimators=#'']\<rparr>"

text \<open>
  For the ranking: a table of three results, two on dataset \<open>D\<close> and one on \<open>E\<close>, held
  at reference 0 of the store.
\<close>

definition demo_table :: table where
  "demo_table =
     \<lparr>tcolumns = [''dataset'', ''model'', ''score''],
      trows = [[(''dataset'', JStr ''D''), (''model'', JStr ''A''),
                (''score'', JFloat (Finite (9 / 10)))],
               [(''dataset'', JStr ''D''), (''model'', JStr ''B''),
                (''score'', JFloat (Finite (7 / 10)))],
               [(''dataset'', JStr ''E''), (''model'', JStr ''A''),
                (''score'', JFloat (Finite (1 / 2)))]]\<rparr>"

definition demo_store :: store where
  "demo_store = (\<lambda>r. demo_table)"

definition demo_pandas :: pandas where
  "demo_pandas = \<lparr>sorted_keys = (\<lambda>ks. ks), sort_values = (\<lambda>kvs. kvs)\<rparr>"

text \<open>
  For the dataset module: a working directory \<^verbatim>\<open>/home/u\<close>, a reader that knows three
  texts (a table of eight rows and two columns, and two tables of fifteen columns with
  eight and four rows), and a data directory that holds \<^verbatim>\<open>australian.dat\<close> and
  \<^verbatim>\<open>adult.data\<close>, to which a variant adds \<^verbatim>\<open>adult.test\<close>.
\<close>

definition demo_env :: "nat env" where
  "demo_env =
     \<lparr>getcwd = ''/home/u'',
      urlretrieve = (\<lambda>u. (Some ''FETCHED'', None)),
      read_excel = (\<lambda>text. Inl (LibraryError ''XLRDError'')),
      read_csv = (\<lambda>sep skiprows text.
        if text = ''EIGHT'' then Inr (8, [(Pos 0, \<lambda>i. i), (Pos 1, \<lambda>i. i mod 2)])
        else if text = ''ADULT1'' then Inr (8, map (\<lambda>j. (Pos j, \<lambda>i. 0)) [0..<15])
        else if text = ''ADULT2'' then Inr (4, map (\<lambda>j. (Pos j, \<lambda>i. 0)) [0..<15])
        else Inl (LibraryError ''ParserError'')),
      loadarff = (\<lambda>text. Inl (LibraryError ''ParseArffError'')),
      rng = (\<lambda>k. 0),
      le_classes = (\<lambda>vs. Inr (remdups vs)),
      has_str = (\<lambda>vs. True),
      str_butlast = (\<lambda>c. c),
      to_numeric = Inr,
      is_object = (\<lambda>vs. False),
      decode_utf8 = Inr\<rparr>"

definition demo_data_state :: state where
  "demo_data_state =
     \<lparr>files = [(''/home/u/data/australian.dat'', ''EIGHT''),
               (''/home/u/data/adult.data'', ''ADULT1'')],
      stdout = [], clock = 0, deadline = None, trace = [], feature_names = None\<rparr>"

definition demo_adult_state :: state where
  "demo_adult_state =
     demo_data_state\<lparr>files := [(''/home/u/data/adult.data'', ''ADULT1''),
                                (''/home/u/data/adult.test'', ''ADULT2'')]\<rparr>"

section \<open>Results on \<^verbatim>\<open>utils/training.py\<close>\<close>

subsection \<open>Auxiliary facts\<close>

lemma py_gt_num:
  "as_num a = Some x \<Longrightarrow> as_num b = Some y \<Longrightarrow> py_gt a b = Inr (float_lt y x)"
  by (cases a; cases b) simp_all

lemma py_lt_num:
  "as_num a = Some x \<Longrightarrow> as_num b = Some y \<Longrightarrow> py_lt a b = Inr (float_lt x y)"
  by (cases a; cases b) simp_all

lemma demo_evaluation_path:
  "evaluation_path demo_dataset demo_model = ''results/D/M/evaluation.json''"
  by (simp add: evaluation_path_def demo_dataset_def demo_model_def joinpath_def join2_def
      RESULTS_DIR_def)

lemma demo_tuning_path:
  "tuning_path demo_dataset demo_model = ''results/D/M/tuning.json''"
  by (simp add: tuning_path_def demo_dataset_def demo_model_def joinpath_def join2_def
      RESULTS_DIR_def)

subsection \<open>The overwrite rule of \<^verbatim>\<open>save_evaluation_results\<close>\<close>

text \<open>
  Claim C1. Let the tuning results carry their three keys, with a numeric validation
  score. When no evaluation file is stored for the pair, \<^verbatim>\<open>save_evaluation_results\<close>
  writes the new result. When a file is stored whose \<^verbatim>\<open>val_score\<close> is a number, the
  file is opened for writing and receives the new result if and only if the new
  validation score is strictly better in the direction of the dataset's flag; otherwise
  the function returns normally and the whole state, the file included, is what it was.
\<close>

theorem save_evaluation_results_overwrite:
  assumes "py_getitem tuning_results ''hp'' = Inr hp"
    and "py_getitem tuning_results ''n_trials'' = Inr n_trials"
    and "py_getitem tuning_results ''score'' = Inr new"
    and "as_num new = Some v2"
    and "doc = JObj [(''hp'', hp), (''score'', score), (''tuning_n_trials'', n_trials),
                     (''val_score'', new), (''train_time'', train_time),
                     (''evaluation_time'', evaluation_time),
                     (''metric_used'', JStr (metric dataset))]"
    and "path = evaluation_path dataset model"
    and "r = save_evaluation_results L dataset model tuning_results score train_time
               evaluation_time s"
  shows
    "(read_file s path = None \<longrightarrow>
        snd r = log_event (Wrote path) (write_file path (fst (json_dump L doc)) s)) \<and>
     (\<forall>text prev old v1.
        read_file s path = Some text \<and> json_load L text = Inr prev \<and>
        py_getitem prev ''val_score'' = Inr old \<and> as_num old = Some v1 \<longrightarrow>
        (strictly_better (is_metric_maximized dataset) v2 v1 \<longrightarrow>
           snd r = log_event (Wrote path) (write_file path (fst (json_dump L doc)) s)) \<and>
        (\<not> strictly_better (is_metric_maximized dataset) v2 v1 \<longrightarrow> r = (Inr (), s)))"
  using assms
  by (auto simp: save_evaluation_results_def better_val_results_def compare_with_previous_def
      evaluation_record_def evaluation_path_def strictly_better_def py_gt_num py_lt_num
      write_json_def makedirs_def Let_def split: prod.splits option.splits)

theorem save_evaluation_results_overwrite_witness:
  "read_file demo_state (evaluation_path demo_dataset demo_model) = Some ''STORED'' \<and>
   strictly_better (is_metric_maximized demo_dataset) (Finite (3 / 4)) (Finite (1 / 2)) \<and>
   read_file (snd (save_evaluation_results demo_lib demo_dataset demo_model demo_tuning
                 (JFloat (Finite (9 / 10))) (JInt 3) (JInt 1) demo_state))
     (evaluation_path demo_dataset demo_model) = Some ''DUMPED''"
proof -
  have stored: "read_file demo_state (evaluation_path demo_dataset demo_model) = Some ''STORED''"
    by (simp add: demo_evaluation_path demo_state_def read_file_def)
  have loaded:
    "json_load demo_lib ''STORED'' = Inr (JObj [(''val_score'', JFloat (Finite (1 / 2)))])"
    by (simp add: demo_lib_def)
  have better:
    "strictly_better (is_metric_maximized demo_dataset) (Finite (3 / 4)) (Finite (1 / 2))"
    by (simp add: strictly_better_def demo_dataset_def)
  have "snd (save_evaluation_results demo_lib demo_dataset demo_model demo_tuning
          (JFloat (Finite (9 / 10))) (JInt 3) (JInt 1) demo_state) =
        log_event (Wrote (evaluation_path demo_dataset demo_model))
          (write_file (evaluation_path demo_dataset demo_model) ''DUMPED'' demo_state)"
    using save_evaluation_results_overwrite [of demo_tuning "JObj [(''n_estimators'', JInt 50)]"
      "JInt 20" "JFloat (Finite (3 / 4))" "Finite (3 / 4)" _ "JFloat (Finite (9 / 10))"
      "JInt 3" "JInt 1" demo_dataset _ demo_model _ demo_lib demo_state, OF _ _ _ _ refl refl refl]
      stored loaded better
    by (simp add: demo_tuning_def demo_lib_def)
  then show ?thesis
    using stored better
    by (simp add: log_event_def write_file_def read_file_def demo_evaluation_path demo_state_def)
qed

subsection \<open>Missing tuning results\<close>

text \<open>
  Claim C6. When no tuning file is stored for the pair, \<^verbatim>\<open>get_tuning_results\<close> raises
  \<^verbatim>\<open>FileNotFoundError\<close>; the orchestrator's iteration for the pair prints its two lines
  and ends normally, leaving the files, the clock and the trace of writes as they were,
  and the loop goes on with the remaining models.
\<close>

theorem missing_tuning_results_skip:
  assumes "read_file s (tuning_path dataset model) = None"
    and "s' = s\<lparr>stdout := stdout s @ [''Model: '' @ model_name model,
                   ''No hyper-parameters saved for this dataset and model'']\<rparr>"
  shows "get_tuning_results L dataset model s = (Inl FileNotFoundError, s) \<and>
         process_pair L T dataset train test model s = (Inr (), s') \<and>
         models_loop L T dataset train test (model # models) s =
           models_loop L T dataset train test models s'"
  using assms
  by (simp add: get_tuning_results_def tuning_path_def process_pair_def pair_body_def
      print_def say_def read_file_def Let_def)

theorem missing_tuning_results_skip_witness:
  "read_file (demo_state\<lparr>files := []\<rparr>) (tuning_path demo_dataset demo_model) = None \<and>
   files (snd (process_pair demo_lib 180 demo_dataset 1 2 demo_model
                 (demo_state\<lparr>files := []\<rparr>))) = [] \<and>
   fst (process_pair demo_lib 180 demo_dataset 1 2 demo_model (demo_state\<lparr>files := []\<rparr>)) =
     Inr ()"
proof -
  have absent:
    "read_file (demo_state\<lparr>files := []\<rparr>) (tuning_path demo_dataset demo_model) = None"
    by (simp add: read_file_def)
  from missing_tuning_results_skip [OF absent refl, of demo_lib 180 1 2 "[]"] absent
  show ?thesis by simp
qed

subsection \<open>Restoring or training in \<^verbatim>\<open>evaluate_model\<close>\<close>

lemma run_untimed: "deadline s = None \<Longrightarrow> run c s = (snd c, s\<lparr>clock := clock s + fst c\<rparr>)"
  by (simp add: run_def Let_def)

lemma demo_weights_path: "weights_path = ''results/Cifar10CustomModel-weights.pkl''"
  by (simp add: weights_path_def joinpath_def join2_def RESULTS_DIR_def)

text \<open>
  Claim C7. Let \<^verbatim>\<open>prepare_dataset\<close> and \<^verbatim>\<open>build_estimator\<close> return, after \<open>d1\<close> and
  \<open>d2\<close> seconds, with no timer armed. If the model is \<^verbatim>\<open>Cifar10CustomModel\<close> and its
  weights file exists, the estimator is initialised and loaded from that file, \<^verbatim>\<open>fit\<close>
  is not called, and the estimator so restored is scored with the training time \<open>-1\<close>.
  Otherwise the estimator is fitted on the first two elements of the training data and
  scored with the training time \<open>d1 + d2 + d3\<close>, the wall-clock time from the entry of
  \<^verbatim>\<open>evaluate_model\<close> to the end of \<^verbatim>\<open>fit\<close> (the designated model saves its weights in
  between).
\<close>

theorem evaluate_model_restores_or_trains:
  assumes prepared: "prepare_dataset model train test (categorical_features dataset) =
                       (d1, Inr (train_data, test_data))"
    and built: "build_estimator model hyperparams train_data = (d2, Inr estimator)"
    and untimed: "deadline s = None"
  shows
    "(\<forall>wtext d3 e1 d4 e2.
        model_name model = ''Cifar10CustomModel'' \<and> read_file s weights_path = Some wtext \<and>
        est_initialize model estimator = (d3, Inr e1) \<and>
        est_load_params model e1 wtext = (d4, Inr e2) \<longrightarrow>
        evaluate_model L model dataset train test hyperparams s =
          scored L model dataset test_data e2 (JInt (- 1))
            (s\<lparr>trace := trace s @ [Initialize, LoadParams weights_path],
               clock := clock s + d1 + d2 + d3 + d4\<rparr>)) \<and>
     (\<forall>X y rest d3 e1.
        \<not> (model_name model = ''Cifar10CustomModel'' \<and> isfile s weights_path) \<and>
        train_data = X # y # rest \<and> est_fit model estimator X y = (d3, Inr e1) \<longrightarrow>
        evaluate_model L model dataset train test hyperparams s =
          seq (\<lambda>s. if model_name model = ''Cifar10CustomModel''
                    then save_weights model weights_path e1 s else (Inr (), s))
            (\<lambda>_. scored L model dataset test_data e1 (JFloat (Finite (d1 + d2 + d3))))
            (s\<lparr>trace := trace s @ [Fit], clock := clock s + d1 + d2 + d3\<rparr>))"
proof (intro conjI allI impI)
  fix wtext d3 e1 d4 e2
  assume h: "model_name model = ''Cifar10CustomModel'' \<and> read_file s weights_path = Some wtext \<and>
        est_initialize model estimator = (d3, Inr e1) \<and>
        est_load_params model e1 wtext = (d4, Inr e2)"
  then show "evaluate_model L model dataset train test hyperparams s =
          scored L model dataset test_data e2 (JInt (- 1))
            (s\<lparr>trace := trace s @ [Initialize, LoadParams weights_path],
               clock := clock s + d1 + d2 + d3 + d4\<rparr>)"
    using prepared built untimed
    by (simp add: evaluate_model_def weights_path_def [symmetric] scored_def seq_def run_untimed
        isfile_def read_file_def restore_estimator_def log_event_def pure_def Let_def)
next
  fix X y rest d3 e1
  assume h: "\<not> (model_name model = ''Cifar10CustomModel'' \<and> isfile s weights_path) \<and>
        train_data = X # y # rest \<and> est_fit model estimator X y = (d3, Inr e1)"
  then show "evaluate_model L model dataset train test hyperparams s =
          seq (\<lambda>s. if model_name model = ''Cifar10CustomModel''
                    then save_weights model weights_path e1 s else (Inr (), s))
            (\<lambda>_. scored L model dataset test_data e1 (JFloat (Finite (d1 + d2 + d3))))
            (s\<lparr>trace := trace s @ [Fit], clock := clock s + d1 + d2 + d3\<rparr>)"
    using prepared built untimed
    by (auto simp: evaluate_model_def weights_path_def [symmetric] scored_def seq_def run_untimed
        isfile_def read_file_def train_estimator_def log_event_def pure_def Let_def
        split: prod.splits sum.splits)
qed

theorem evaluate_model_restores_or_trains_witness:
  "model_name demo_cifar = ''Cifar10CustomModel'' \<and>
   read_file demo_cifar_state weights_path = Some ''WEIGHTS'' \<and>
   evaluate_model demo_lib demo_cifar demo_dataset 1 2 JNull demo_cifar_state =
     (Inr (JFloat (Finite (9 / 10)), JInt (- 1), JFloat (Finite 2)),
      demo_cifar_state\<lparr>trace := [Initialize, LoadParams weights_path, Predict],
                         clock := 6\<rparr>) \<and>
   \<not> (model_name demo_model = ''Cifar10CustomModel'' \<and> isfile demo_state weights_path) \<and>
   evaluate_model demo_lib demo_model demo_dataset 1 2 JNull demo_state =
     (Inr (JFloat (Finite (9 / 10)), JFloat (Finite 203), JFloat (Finite 2)),
      demo_state\<lparr>trace := [Fit, Predict], clock := 205\<rparr>)"
proof -
  have cifar: "model_name demo_cifar = ''Cifar10CustomModel''"
    by (simp add: demo_cifar_def)
  have stored: "read_file demo_cifar_state weights_path = Some ''WEIGHTS''"
    by (simp add: demo_cifar_state_def read_file_def demo_weights_path)
  have other: "\<not> (model_name demo_model = ''Cifar10CustomModel'' \<and> isfile demo_state weights_path)"
    by (simp add: demo_model_def)
  have restored:
    "evaluate_model demo_lib demo_cifar demo_dataset 1 2 JNull demo_cifar_state =
       scored demo_lib demo_cifar demo_dataset [2, 2] 1 (JInt (- 1))
         (demo_cifar_state\<lparr>trace := trace demo_cifar_state @ [Initialize, LoadParams weights_path],
                            clock := clock demo_cifar_state + 2 + 1 + 0 + 1\<rparr>)"
    using evaluate_model_restores_or_trains [of demo_cifar 1 2 demo_dataset 2 "[1, 1]" "[2, 2]"
        JNull 1 0 demo_cifar_state demo_lib] cifar stored
    by (simp add: demo_cifar_def demo_model_def demo_cifar_state_def demo_state_def)
  have trained:
    "evaluate_model demo_lib demo_model demo_dataset 1 2 JNull demo_state =
       seq (\<lambda>s. if model_name demo_model = ''Cifar10CustomModel''
                 then save_weights demo_model weights_path 1 s else (Inr (), s))
         (\<lambda>_. scored demo_lib demo_model demo_dataset [2, 2] 1 (JFloat (Finite (2 + 1 + 200))))
         (demo_state\<lparr>trace := trace demo_state @ [Fit], clock := clock demo_state + 2 + 1 + 200\<rparr>)"
    using evaluate_model_restores_or_trains [of demo_model 1 2 demo_dataset 2 "[1, 1]" "[2, 2]"
        JNull 1 0 demo_state demo_lib] other
    by (simp add: demo_model_def demo_state_def)
  show ?thesis
    unfolding restored trained
    using cifar stored other
    by (simp add: scored_def score_estimator_def seq_def pure_def run_def log_event_def
        demo_cifar_def demo_model_def demo_lib_def demo_dataset_def demo_cifar_state_def
        demo_state_def Let_def)
qed

subsection \<open>A training run that exceeds the time ceiling\<close>

lemma timed_evaluation_times_out:
  assumes hp: "py_getitem tuning ''hp'' = Inr hyperparams"
    and prepared: "prepare_dataset model train test (categorical_features dataset) =
                     (d1, Inr (train_data, test_data))" "0 \<le> d1"
    and built: "build_estimator model hyperparams train_data = (d2, Inr estimator)" "0 \<le> d2"
    and trains: "\<not> (model_name model = ''Cifar10CustomModel'' \<and> isfile s weights_path)"
      "train_data = X # y # rest"
    and exceeds: "of_int T < fst (est_fit model estimator X y)"
  shows "\<exists>tr. (tr = [] \<or> tr = [Fit]) \<and>
           timed_evaluation L T dataset train test model tuning s =
             (Inl TimeoutError, s\<lparr>trace := trace s @ tr, clock := clock s + of_int T,
                                   deadline := None\<rparr>)"
proof -
  have nofile: "\<not> (model_name model = ''Cifar10CustomModel'' \<and>
                    isfile (s\<lparr>clock := c, deadline := d\<rparr>) weights_path)" for c d
    using trains(1) by (simp add: isfile_def read_file_def)
  show ?thesis
  proof (cases "of_int T < d1")
    case True
    then show ?thesis
      using hp prepared
      by (intro exI [of _ "[]"])
        (simp add: timed_evaluation_def set_timeout_def evaluate_model_def seq_def pure_def
          run_def Let_def)
  next
    case False
    note le1 = this
    show ?thesis
    proof (cases "of_int T < d1 + d2")
      case True
      then show ?thesis
        using hp prepared built le1
        by (intro exI [of _ "[]"])
          (simp add: timed_evaluation_def set_timeout_def evaluate_model_def seq_def pure_def
            run_def Let_def)
    next
      case False
      obtain d3 r3 where fit: "est_fit model estimator X y = (d3, r3)"
        by (cases "est_fit model estimator X y")
      with exceeds have "of_int T < d3" by simp
      with prepared built have late: "of_int T < d1 + d2 + d3" by linarith
      show ?thesis
        using hp prepared built le1 False late fit trains nofile
        by (intro exI [of _ "[Fit]"])
          (auto simp: timed_evaluation_def set_timeout_def evaluate_model_def seq_def pure_def
            run_def Let_def weights_path_def [symmetric] train_estimator_def log_event_def
            isfile_def read_file_def)
    qed
  qed
qed

lemma tuned_results_found:
  assumes "read_file s (tuning_path dataset model) = Some ttext"
  shows "get_tuning_results L dataset model (print line s) = (json_load L ttext, print line s)"
  using assms
  by (simp add: get_tuning_results_def tuning_path_def read_file_def print_def Let_def)

text \<open>
  Claim C4. Let the pair have tuned hyper-parameters, let \<^verbatim>\<open>prepare_dataset\<close> and
  \<^verbatim>\<open>build_estimator\<close> return, and let the estimator be one that is trained, with a
  \<^verbatim>\<open>fit\<close> that runs longer than the ceiling \<open>T\<close>. Then the timed evaluation raises
  \<^verbatim>\<open>TimeoutError\<close>, exactly \<open>T\<close> seconds after it started, whatever the clock was at
  the start of the pair; the iteration prints the timeout message and ends normally; no
  file is written or changed, so no evaluation result is stored; the timer is disarmed;
  and the loop goes on with the remaining models. The ceiling is a parameter of the
  run, 180 seconds when it is not given.
\<close>

theorem training_timeout_skips_pair:
  assumes tuned: "read_file s (tuning_path dataset model) = Some ttext"
      "json_load L ttext = Inr tuning" "py_getitem tuning ''hp'' = Inr hyperparams"
    and prepared: "prepare_dataset model train test (categorical_features dataset) =
                     (d1, Inr (train_data, test_data))" "0 \<le> d1"
    and built: "build_estimator model hyperparams train_data = (d2, Inr estimator)" "0 \<le> d2"
    and trains: "\<not> (model_name model = ''Cifar10CustomModel'' \<and> isfile s weights_path)"
      "train_data = X # y # rest"
    and exceeds: "of_int T < fst (est_fit model estimator X y)"
    and message: "py_format L (JInt T) [] = Inr t"
    and r: "r = process_pair L T dataset train test model s"
  shows "default_max_training_time = 180 \<and>
         fst (timed_evaluation L T dataset train test model tuning
                (print (''Model: '' @ model_name model) s)) = Inl TimeoutError \<and>
         fst r = Inr () \<and>
         files (snd r) = files s \<and>
         stdout (snd r) = stdout s @ [''Model: '' @ model_name model,
           ''Model training and testing exceeded allowed time ('' @ t @ ''s)''] \<and>
         (trace (snd r) = trace s \<or> trace (snd r) = trace s @ [Fit]) \<and>
         clock (snd r) = clock s + of_int T \<and> deadline (snd r) = None \<and>
         models_loop L T dataset train test (model # models) s =
           models_loop L T dataset train test models (snd r)"
proof -
  let ?s0 = "print (''Model: '' @ model_name model) s"
  have nofile: "\<not> (model_name model = ''Cifar10CustomModel'' \<and> isfile ?s0 weights_path)"
    using trains(1) by (simp add: isfile_def read_file_def print_def)
  from timed_evaluation_times_out [OF tuned(3) prepared built nofile trains(2) exceeds]
  obtain tr where tr: "tr = [] \<or> tr = [Fit]"
    and timed: "timed_evaluation L T dataset train test model tuning ?s0 =
      (Inl TimeoutError, ?s0\<lparr>trace := trace ?s0 @ tr, clock := clock ?s0 + of_int T,
                              deadline := None\<rparr>)"
    by blast
  have body: "pair_body L T dataset train test model ?s0 =
      say (''Model training and testing exceeded allowed time ('' @ t @ ''s)'')
        (?s0\<lparr>trace := trace ?s0 @ tr, clock := clock ?s0 + of_int T, deadline := None\<rparr>)"
    using tuned timed message
    by (simp add: pair_body_def tuned_results_found seq_def pure_def)
  have pair: "r = say (''Model training and testing exceeded allowed time ('' @ t @ ''s)'')
        (?s0\<lparr>trace := trace ?s0 @ tr, clock := clock ?s0 + of_int T, deadline := None\<rparr>)"
    unfolding r process_pair_def body by (simp add: say_def)
  have loop: "models_loop L T dataset train test (model # models) s =
           models_loop L T dataset train test models (snd r)"
    using pair r by (simp add: say_def)
  show ?thesis
    using tr timed loop unfolding pair
    by (auto simp: say_def print_def default_max_training_time_def)
qed

theorem training_timeout_skips_pair_witness:
  "rat_of_int 180 < fst (est_fit demo_model 0 1 1) \<and>
   fst (process_pair demo_lib 180 demo_dataset 1 2 demo_model demo_state) = Inr () \<and>
   files (snd (process_pair demo_lib 180 demo_dataset 1 2 demo_model demo_state)) =
     files demo_state \<and>
   stdout (snd (process_pair demo_lib 180 demo_dataset 1 2 demo_model demo_state)) =
     [''Model: M'', ''Model training and testing exceeded allowed time (#s)'']"
proof -
  have exceeds: "rat_of_int 180 < fst (est_fit demo_model 0 1 1)"
    by (simp add: demo_model_def)
  have tuned: "read_file demo_state (tuning_path demo_dataset demo_model) = Some ''TUNING''"
    by (simp add: demo_tuning_path demo_state_def read_file_def)
  have trains: "\<not> (model_name demo_model = ''Cifar10CustomModel'' \<and> isfile demo_state weights_path)"
    by (simp add: demo_model_def)
  note t = training_timeout_skips_pair [of demo_state demo_dataset demo_model "''TUNING''"
      demo_lib demo_tuning "JObj [(''n_estimators'', JInt 50)]" 1 2 2 "[1, 1]" "[2, 2]" 1 0
      1 1 "[]" 180 "''#''" _ "[]", OF tuned _ _ _ _ _ _ trains _ exceeds _ refl,
      THEN conjunct2]
  show ?thesis
    using t exceeds by (simp add: demo_lib_def demo_tuning_def demo_model_def demo_state_def)
qed

subsection \<open>Which exceptions end the run\<close>

lemma pair_body_raises:
  assumes "reaches_outer_try L T dataset train test model s e s'"
  shows "pair_body L T dataset train test model (print (''Model: '' @ model_name model) s) =
           (Inl e, s')"
  using assms
  unfolding reaches_outer_try_def pair_body_def Let_def
  by (elim disjE exE conjE) (auto simp: seq_def pure_def split: error.splits)

lemma models_loop_append:
  "models_loop L T d tr te pre s = (Inr u, s1) \<Longrightarrow>
   models_loop L T d tr te (pre @ post) s = models_loop L T d tr te post s1"
proof (induction pre arbitrary: s)
  case Nil
  then show ?case by simp
next
  case (Cons m pre)
  then show ?case
    by (cases "process_pair L T d tr te m s") (auto split: sum.splits)
qed

lemma datasets_loop_append:
  "datasets_loop L T pre ms s = (Inr u, s1) \<Longrightarrow>
   datasets_loop L T (pre @ post) ms s = datasets_loop L T post ms s1"
proof (induction pre arbitrary: s)
  case Nil
  then show ?case by simp
next
  case (Cons d pre)
  then show ?case
    by (auto split: sum.splits prod.splits)
qed

text \<open>
  Claim C5. Let an exception \<open>e\<close> reach the outer \<^verbatim>\<open>try\<close> while the pair is processed,
  the earlier models and datasets of the run having been processed normally: \<open>e\<close> is
  raised by \<^verbatim>\<open>get_tuning_results\<close> and is not \<^verbatim>\<open>FileNotFoundError\<close>, or by the timed
  evaluation and is not \<^verbatim>\<open>TimeoutError\<close>, or by any later step, whatever its class. If
  \<open>e\<close> is \<^verbatim>\<open>MemoryError\<close>, the iteration catches it, prints its message and ends normally,
  and the loop goes on with the remaining models. If \<open>e\<close> is of any other class, it is
  not caught: it leaves the iteration, and the whole run of
  \<^verbatim>\<open>train_all_models_on_all_datasets\<close> ends with \<open>e\<close> in the state the exception left.
  This includes a \<^verbatim>\<open>FileNotFoundError\<close> that does not come from \<^verbatim>\<open>get_tuning_results\<close>
  and a \<^verbatim>\<open>TimeoutError\<close> that does not come from the timed evaluation.
\<close>

theorem only_memory_error_is_caught:
  assumes reaches: "reaches_outer_try L T dataset train test model s e s'"
    and earlier_models: "models_loop L T dataset train test before sa = (Inr (), s)"
    and earlier_datasets: "datasets_loop L T dbefore (before @ model # after) s0 = (Inr (), sb)"
    and got: "seq (ds_get dataset) (\<lambda>r. pure (unpack2 r))
                (print (''Dataset: '' @ ds_name dataset) sb) = (Inr (train, test), sa)"
  shows
    "(e = MemoryError \<longrightarrow>
        process_pair L T dataset train test model s =
          (Inr (), print ''Memory requirements for this model with this dataset are too high'' s') \<and>
        models_loop L T dataset train test (model # after) s =
          models_loop L T dataset train test after
            (print ''Memory requirements for this model with this dataset are too high'' s')) \<and>
     (e \<noteq> MemoryError \<longrightarrow>
        process_pair L T dataset train test model s = (Inl e, s') \<and>
        models_loop L T dataset train test (model # after) s = (Inl e, s') \<and>
        train_all_models_on_all_datasets L (dbefore @ dataset # dafter)
          (before @ model # after) T s0 = (Inl e, s'))"
proof -
  have body:
    "pair_body L T dataset train test model (print (''Model: '' @ model_name model) s) =
       (Inl e, s')"
    using reaches by (rule pair_body_raises)
  show ?thesis
  proof (rule conjI; rule impI)
    assume e: "e = MemoryError"
    from body e have caught: "process_pair L T dataset train test model s =
        (Inr (), print ''Memory requirements for this model with this dataset are too high'' s')"
      by (simp add: process_pair_def say_def)
    then have "models_loop L T dataset train test (model # after) s =
        models_loop L T dataset train test after
          (print ''Memory requirements for this model with this dataset are too high'' s')"
      by simp
    with caught
    show "process_pair L T dataset train test model s =
        (Inr (), print ''Memory requirements for this model with this dataset are too high'' s') \<and>
      models_loop L T dataset train test (model # after) s =
        models_loop L T dataset train test after
          (print ''Memory requirements for this model with this dataset are too high'' s')"
      by (rule conjI)
  next
    assume e: "e \<noteq> MemoryError"
    from body e have pair: "process_pair L T dataset train test model s = (Inl e, s')"
      by (cases e) (simp_all add: process_pair_def)
    then have rest: "models_loop L T dataset train test (model # after) s = (Inl e, s')"
      by simp
    with earlier_models
    have models: "models_loop L T dataset train test (before @ model # after) sa = (Inl e, s')"
      by (simp add: models_loop_append)
    have "datasets_loop L T (dataset # dafter) (before @ model # after) sb = (Inl e, s')"
      using got models by simp
    with earlier_datasets
    have "train_all_models_on_all_datasets L (dbefore @ dataset # dafter)
            (before @ model # after) T s0 = (Inl e, s')"
      by (simp add: train_all_models_on_all_datasets_def datasets_loop_append)
    with pair rest
    show "process_pair L T dataset train test model s = (Inl e, s') \<and>
        models_loop L T dataset train test (model # after) s = (Inl e, s') \<and>
        train_all_models_on_all_datasets L (dbefore @ dataset # dafter)
          (before @ model # after) T s0 = (Inl e, s')"
      by (intro conjI)
  qed
qed

lemma demo_oom_reaches:
  "reaches_outer_try demo_lib 180 demo_dataset 1 2 demo_oom
     (print ''Dataset: D'' demo_state) MemoryError
     (demo_state\<lparr>stdout := [''Dataset: D'', ''Model: M''], trace := [Fit], clock := 8\<rparr>)"
  by (simp add: reaches_outer_try_def get_tuning_results_def timed_evaluation_def
        set_timeout_def evaluate_model_def train_estimator_def seq_def pure_def run_def
        print_def log_event_def isfile_def read_file_def joinpath_def join2_def RESULTS_DIR_def
        demo_lib_def demo_tuning_def demo_oom_def demo_model_def demo_dataset_def demo_state_def
        Let_def)

lemma demo_no_input_reaches:
  "reaches_outer_try demo_lib 180 demo_dataset 1 2 demo_no_input
     (print ''Dataset: D'' demo_state) FileNotFoundError
     (demo_state\<lparr>stdout := [''Dataset: D'', ''Model: M''], trace := [Fit], clock := 8\<rparr>)"
  by (simp add: reaches_outer_try_def get_tuning_results_def timed_evaluation_def
        set_timeout_def evaluate_model_def train_estimator_def seq_def pure_def run_def
        print_def log_event_def isfile_def read_file_def joinpath_def join2_def RESULTS_DIR_def
        demo_lib_def demo_tuning_def demo_no_input_def demo_model_def demo_dataset_def
        demo_state_def Let_def)

lemma demo_stalled_reaches:
  "reaches_outer_try demo_stalled_lib 180 demo_dataset 1 2 demo_model
     (print ''Dataset: D'' demo_state) TimeoutError
     (demo_state\<lparr>stdout := [''Dataset: D'', ''Model: M'']\<rparr>)"
  by (simp add: reaches_outer_try_def get_tuning_results_def
        print_def read_file_def joinpath_def join2_def RESULTS_DIR_def
        demo_stalled_lib_def demo_lib_def demo_model_def demo_dataset_def demo_state_def
        Let_def)

lemma demo_garbled_reaches:
  "reaches_outer_try demo_lib 180 demo_dataset 1 2 demo_model
     (print ''Dataset: D'' demo_garbled_state) (LibraryError ''JSONDecodeError'')
     (demo_garbled_state\<lparr>stdout := [''Dataset: D'', ''Model: M'']\<rparr>)"
  by (simp add: reaches_outer_try_def get_tuning_results_def
        print_def read_file_def joinpath_def join2_def RESULTS_DIR_def
        demo_lib_def demo_model_def demo_dataset_def demo_state_def demo_garbled_state_def
        Let_def)

theorem only_memory_error_is_caught_witness:
  "reaches_outer_try demo_lib 180 demo_dataset 1 2 demo_oom
     (print ''Dataset: D'' demo_state) MemoryError
     (demo_state\<lparr>stdout := [''Dataset: D'', ''Model: M''], trace := [Fit], clock := 8\<rparr>) \<and>
   process_pair demo_lib 180 demo_dataset 1 2 demo_oom (print ''Dataset: D'' demo_state) =
     (Inr (), demo_state\<lparr>stdout := [''Dataset: D'', ''Model: M'',
         ''Memory requirements for this model with this dataset are too high''],
       trace := [Fit], clock := 8\<rparr>) \<and>
   reaches_outer_try demo_lib 180 demo_dataset 1 2 demo_no_input
     (print ''Dataset: D'' demo_state) FileNotFoundError
     (demo_state\<lparr>stdout := [''Dataset: D'', ''Model: M''], trace := [Fit], clock := 8\<rparr>) \<and>
   train_all_models_on_all_datasets demo_lib [demo_dataset] [demo_no_input] 180 demo_state =
     (Inl FileNotFoundError,
      demo_state\<lparr>stdout := [''Dataset: D'', ''Model: M''], trace := [Fit], clock := 8\<rparr>) \<and>
   reaches_outer_try demo_stalled_lib 180 demo_dataset 1 2 demo_model
     (print ''Dataset: D'' demo_state) TimeoutError
     (demo_state\<lparr>stdout := [''Dataset: D'', ''Model: M'']\<rparr>) \<and>
   train_all_models_on_all_datasets demo_stalled_lib [demo_dataset] [demo_model] 180 demo_state =
     (Inl TimeoutError, demo_state\<lparr>stdout := [''Dataset: D'', ''Model: M'']\<rparr>) \<and>
   reaches_outer_try demo_lib 180 demo_dataset 1 2 demo_model
     (print ''Dataset: D'' demo_garbled_state) (LibraryError ''JSONDecodeError'')
     (demo_garbled_state\<lparr>stdout := [''Dataset: D'', ''Model: M'']\<rparr>) \<and>
   train_all_models_on_all_datasets demo_lib [demo_dataset] [demo_model] 180 demo_garbled_state =
     (Inl (LibraryError ''JSONDecodeError''),
      demo_garbled_state\<lparr>stdout := [''Dataset: D'', ''Model: M'']\<rparr>)"
proof -
  have got: "seq (ds_get demo_dataset) (\<lambda>r. pure (unpack2 r))
               (print (''Dataset: '' @ ds_name demo_dataset) s) =
             (Inr (1, 2), print ''Dataset: D'' s)" for s
    by (simp add: seq_def pure_def unpack2_def demo_dataset_def)
  have none: "models_loop K 180 demo_dataset 1 2 [] s = (Inr (), s)"
    and none': "datasets_loop K 180 [] ([] @ m # []) s = (Inr (), s)"
    for s and m :: "(nat, nat, nat) model" and K :: "nat lib"
    by simp_all
  from only_memory_error_is_caught [OF demo_oom_reaches none none' got, where dafter = "[]"]
  have caught: "process_pair demo_lib 180 demo_dataset 1 2 demo_oom
       (print ''Dataset: D'' demo_state) =
     (Inr (), demo_state\<lparr>stdout := [''Dataset: D'', ''Model: M'',
         ''Memory requirements for this model with this dataset are too high''],
       trace := [Fit], clock := 8\<rparr>)"
    by (simp add: print_def)
  from only_memory_error_is_caught [OF demo_no_input_reaches none none' got, where dafter = "[]"]
  have missing: "train_all_models_on_all_datasets demo_lib [demo_dataset] [demo_no_input] 180
       demo_state =
     (Inl FileNotFoundError,
      demo_state\<lparr>stdout := [''Dataset: D'', ''Model: M''], trace := [Fit], clock := 8\<rparr>)"
    by simp
  from only_memory_error_is_caught [OF demo_stalled_reaches none none' got, where dafter = "[]"]
  have stalled: "train_all_models_on_all_datasets demo_stalled_lib [demo_dataset] [demo_model]
       180 demo_state =
     (Inl TimeoutError, demo_state\<lparr>stdout := [''Dataset: D'', ''Model: M'']\<rparr>)"
    by simp
  from only_memory_error_is_caught [OF demo_garbled_reaches none none' got, where dafter = "[]"]
  have halted: "train_all_models_on_all_datasets demo_lib [demo_dataset] [demo_model] 180
       demo_garbled_state =
     (Inl (LibraryError ''JSONDecodeError''),
      demo_garbled_state\<lparr>stdout := [''Dataset: D'', ''Model: M'']\<rparr>)"
    by simp
  from demo_oom_reaches caught demo_no_input_reaches missing demo_stalled_reaches stalled
    demo_garbled_reaches halted
  show ?thesis by simp
qed

section \<open>Results on the dataset classes\<close>

subsection \<open>Downloads\<close>

lemma download_file_trace:
  "trace (snd (download_file E u f s)) =
     trace s @ [Urlretrieve (escaped u) (joinpath (workdir E) [f])]"
  by (simp add: download_file_def escaped_def log_event_def write_file_def Let_def
      split: prod.splits option.splits)

lemma download_files_trace:
  "\<exists>tr. trace (snd (download_files E l s)) = trace s @ tr"
proof (induction l arbitrary: s)
  case Nil
  then show ?case by simp
next
  case (Cons a l)
  obtain u f where a: "a = (u, f)" by (cases a)
  obtain r s1 where d: "download_file E u f s = (r, s1)" by (cases "download_file E u f s")
  have t1: "trace s1 = trace s @ [Urlretrieve (escaped u) (joinpath (workdir E) [f])]"
    using download_file_trace [of E u f s] d by simp
  show ?case
  proof (cases r)
    case (Inl e)
    then show ?thesis using a d t1 by simp
  next
    case (Inr x)
    from Cons.IH [of s1] obtain tr where "trace (snd (download_files E l s1)) = trace s1 @ tr" ..
    then show ?thesis using a d t1 Inr by simp
  qed
qed

lemma download_trace:
  "\<exists>tr. trace (snd (download E cls s)) =
          trace s @ Urlretrieve (escaped (first_url cls)) (cache_path E cls) # tr"
proof -
  have two: "\<exists>tr. trace (snd (download_files E [(u1, f1), (u2, f2)] s)) =
                 trace s @ Urlretrieve (escaped u1) (joinpath (workdir E) [f1]) # tr"
    for u1 f1 u2 f2
  proof -
    obtain r s1 where d: "download_file E u1 f1 s = (r, s1)" by (cases "download_file E u1 f1 s")
    have t1: "trace s1 = trace s @ [Urlretrieve (escaped u1) (joinpath (workdir E) [f1])]"
      using download_file_trace [of E u1 f1 s] d by simp
    obtain tr where "trace (snd (download_files E [(u2, f2)] s1)) = trace s1 @ tr"
      using download_files_trace by blast
    then show ?thesis using d t1 by (cases r) auto
  qed
  show ?thesis
    by (cases cls)
      (simp_all add: download_def makedirs_def seq_def pure_def getattr_def first_url_def first_file_def
        cache_path_def download_file_trace two del: download_files.simps)
qed

lemma get_after_fetch:
  "trace (snd (get E cls s)) = trace (snd (fetch_if_absent E cls (cache_path E cls) s)) \<and>
   files (snd (get E cls s)) = files (snd (fetch_if_absent E cls (cache_path E cls) s))"
proof -
  obtain r s1 where f: "fetch_if_absent E cls (cache_path E cls) s = (r, s1)"
    by (cases "fetch_if_absent E cls (cache_path E cls) s")
  show ?thesis
    using f
    by (cases cls; cases r)
      (auto simp: DefaultCreditCardDataset_get_def StatlogAustralianDataset_get_def
        StatlogGermanDataset_get_def AdultDataset_get_def SteelPlatesFaultsDataset_get_def
        SeismicBumps_get_def csv_get_def get_raw_def seq_def pure_def getattr_def item_def
        read_with_def cache_path_def first_file_def Let_def
        split: sum.splits option.splits prod.splits)
qed

lemma demo_cache_paths:
  "cache_path demo_env StatlogAustralianDataset = ''/home/u/data/australian.dat''"
  "cache_path demo_env StatlogGermanDataset = ''/home/u/data/german.data-numeric''"
  "cache_path demo_env AdultDataset = ''/home/u/data/adult.data''"
  "joinpath (workdir demo_env) [''adult.data''] = ''/home/u/data/adult.data''"
  "joinpath (workdir demo_env) [''adult.test''] = ''/home/u/data/adult.test''"
  by (simp_all add: cache_path_def first_file_def workdir_def joinpath_def join2_def demo_env_def)

text \<open>
  Claim C8. For each of the six dataset classes: when the file the class tests for
  exists, \<^verbatim>\<open>get\<close> downloads nothing and changes no file; when it is absent, \<^verbatim>\<open>get\<close>
  starts by fetching the class's first resource to that path.
\<close>

theorem get_downloads_only_when_absent:
  assumes "s' = snd (get E cls s)"
  shows "(isfile s (cache_path E cls) \<longrightarrow> trace s' = trace s \<and> files s' = files s) \<and>
         (\<not> isfile s (cache_path E cls) \<longrightarrow>
            (\<exists>tr. trace s' = trace s @
               Urlretrieve (escaped (first_url cls)) (cache_path E cls) # tr))"
  using assms get_after_fetch [of E cls s] download_trace [of E cls s]
  by (auto simp: fetch_if_absent_def)

theorem get_downloads_only_when_absent_witness:
  "isfile demo_data_state (cache_path demo_env StatlogAustralianDataset) \<and>
   trace (snd (get demo_env StatlogAustralianDataset demo_data_state)) = [] \<and>
   files (snd (get demo_env StatlogAustralianDataset demo_data_state)) = files demo_data_state \<and>
   \<not> isfile demo_data_state (cache_path demo_env StatlogGermanDataset) \<and>
   hd (trace (snd (get demo_env StatlogGermanDataset demo_data_state))) =
     Urlretrieve (escaped (first_url StatlogGermanDataset))
       (cache_path demo_env StatlogGermanDataset)"
proof -
  have present: "isfile demo_data_state (cache_path demo_env StatlogAustralianDataset)"
    by (simp add: demo_cache_paths isfile_def read_file_def demo_data_state_def)
  have absent: "\<not> isfile demo_data_state (cache_path demo_env StatlogGermanDataset)"
    by (simp add: demo_cache_paths isfile_def read_file_def demo_data_state_def)
  have empty: "trace demo_data_state = []"
    by (simp add: demo_data_state_def)
  from get_downloads_only_when_absent [OF refl, of demo_data_state demo_env
      StatlogAustralianDataset] present empty
  have cached: "trace (snd (get demo_env StatlogAustralianDataset demo_data_state)) = [] \<and>
    files (snd (get demo_env StatlogAustralianDataset demo_data_state)) = files demo_data_state"
    by simp
  from get_downloads_only_when_absent [OF refl, of demo_data_state demo_env
      StatlogGermanDataset] absent empty
  have fetched: "hd (trace (snd (get demo_env StatlogGermanDataset demo_data_state))) =
     Urlretrieve (escaped (first_url StatlogGermanDataset))
       (cache_path demo_env StatlogGermanDataset)"
    by auto
  from present absent cached fetched show ?thesis by simp
qed

text \<open>
  Claim C10. \<^verbatim>\<open>AdultDataset\<close> tests for its first file only: with \<^verbatim>\<open>adult.data\<close>
  present and readable and \<^verbatim>\<open>adult.test\<close> absent, \<^verbatim>\<open>get\<close> downloads nothing (the state
  is left as it was) and raises \<^verbatim>\<open>FileNotFoundError\<close>, from the read of the second file.
\<close>

theorem adult_second_file_missing:
  assumes "read_file s (joinpath (workdir E) [''adult.data'']) = Some text1"
    and "read_file s (joinpath (workdir E) [''adult.test'']) = None"
    and "read_csv E '', '' 0 text1 = Inr p"
  shows "get E AdultDataset s = (Inl FileNotFoundError, s)"
  using assms
  by (simp add: AdultDataset_get_def get_raw_def seq_def pure_def getattr_def item_def
      fetch_if_absent_def isfile_def read_with_def Let_def)

theorem adult_second_file_missing_witness:
  "read_file demo_data_state (joinpath (workdir demo_env) [''adult.data'']) = Some ''ADULT1'' \<and>
   read_file demo_data_state (joinpath (workdir demo_env) [''adult.test'']) = None \<and>
   get demo_env AdultDataset demo_data_state = (Inl FileNotFoundError, demo_data_state)"
proof -
  have first: "read_file demo_data_state (joinpath (workdir demo_env) [''adult.data'']) =
      Some ''ADULT1''"
    by (simp add: demo_cache_paths read_file_def demo_data_state_def)
  have second: "read_file demo_data_state (joinpath (workdir demo_env) [''adult.test'']) = None"
    by (simp add: demo_cache_paths read_file_def demo_data_state_def)
  have parsed: "read_csv demo_env '', '' 0 ''ADULT1'' =
      Inr (8, map (\<lambda>j. (Pos j, \<lambda>i. 0)) [0..<15])"
    by (simp add: demo_env_def)
  from adult_second_file_missing [OF first second parsed] first second
  show ?thesis by simp
qed

subsection \<open>What \<^verbatim>\<open>get\<close> returns\<close>

lemma quarter_ceiling: "nat \<lceil>(1 / 4 :: rat) * of_nat n\<rceil> = (n + 3) div 4"
  by linarith

lemma quarter_ceiling': "nat \<lceil>(of_nat n :: rat) / 4\<rceil> = (n + 3) div 4"
  by linarith

lemma insert_at_set: "set (insert_at i x xs) = insert x (set xs)"
proof -
  have "set (take i xs) \<union> set (drop i xs) = set xs"
    by (metis append_take_drop_id set_append)
  then show ?thesis by (auto simp: insert_at_def)
qed

lemma insert_at_length: "length (insert_at i x xs) = Suc (length xs)"
  by (simp add: insert_at_def)

lemma insert_at_distinct: "distinct (insert_at i x xs) = (x \<notin> set xs \<and> distinct xs)"
proof -
  have d: "distinct xs = (distinct (take i xs) \<and> distinct (drop i xs) \<and>
             set (take i xs) \<inter> set (drop i xs) = {})"
    by (metis append_take_drop_id distinct_append)
  have u: "set xs = set (take i xs) \<union> set (drop i xs)"
    by (metis append_take_drop_id set_append)
  show ?thesis
    unfolding insert_at_def d u by auto
qed

lemma shuffle_set: "set (shuffle d xs) = set xs"
  by (induction xs) (simp_all add: insert_at_set)

lemma shuffle_length: "length (shuffle d xs) = length xs"
  by (induction xs) (simp_all add: insert_at_length)

lemma shuffle_distinct: "distinct (shuffle d xs) = distinct xs"
  by (induction xs) (simp_all add: insert_at_distinct shuffle_set)

lemma positions_of_range:
  assumes "set ps \<subseteq> {0..<n}"
  shows "map (\<lambda>p. [0..<n] ! p) ps = ps"
  using assms by (induction ps) simp_all

lemma split_result_quarter:
  assumes X: "index X = [0..<n]" and y: "s_index y = [0..<n]" and n: "2 \<le> n"
  shows "\<exists>res. split_result E X y = Inr res \<and> is_quarter_split n res"
proof -
  define k where "k = (n + 3) div 4"
  define perm where "perm = shuffle (rng E) [0..<n]"
  have k: "k \<le> n" "0 < n - k" using n unfolding k_def by linarith+
  have kc: "nat \<lceil>(of_nat n :: rat) / 4\<rceil> = k"
    by (simp add: k_def quarter_ceiling')
  have perm: "distinct perm" "set perm = {0..<n}" "length perm = n"
    by (simp_all add: perm_def shuffle_distinct shuffle_set shuffle_length)
  have parts: "take k perm @ drop k perm = perm" by simp
  have train: "take (n - k) (drop k perm) = drop k perm"
    using perm(3) by simp
  have sub: "set (take k perm) \<subseteq> {0..<n}" "set (drop k perm) \<subseteq> {0..<n}"
    using perm(2) by (auto dest: in_set_takeD in_set_dropD)
  have dist: "distinct (drop k perm @ take k perm)"
    using perm(1) parts by (metis distinct_append inf_commute)
  have uni: "set (drop k perm @ take k perm) = {0..<n}"
    using perm(2) parts by (metis set_append sup_commute)
  have len: "length (drop k perm) + length (take k perm) = n" "length (take k perm) = k"
    using perm(3) k by simp_all
  have res: "split_result E X y =
      Inr (Splits (frame_rows (drop k perm) X, Column (series_rows (drop k perm) y))
                  (frame_rows (take k perm) X, Column (series_rows (take k perm) y)))"
    using k n train
    by (simp add: split_result_def train_test_split_def test_size_def X y kc
        perm_def [symmetric] Let_def)
  have "is_quarter_split n
      (Splits (frame_rows (drop k perm) X, Column (series_rows (drop k perm) y))
              (frame_rows (take k perm) X, Column (series_rows (take k perm) y)))"
    using dist uni len
    by (simp add: frame_rows_def series_rows_def X y
        positions_of_range [OF sub(1)] positions_of_range [OF sub(2)]
        kc del: set_append distinct_append)
  with res show ?thesis by blast
qed

lemma select_under_total:
  "list_all (\<lambda>key. under key cs \<noteq> []) keys \<Longrightarrow> \<exists>xs. select_under keys cs = Inr xs"
proof (induction keys)
  case Nil
  then show ?case by simp
next
  case (Cons key keys)
  then obtain xs where "select_under keys cs = Inr xs" by auto
  with Cons.prems show ?case by (cases "under key cs") auto
qed

lemma le_transform_length: "le_transform classes ys = Inr codes \<Longrightarrow> length codes = length ys"
  by (induction ys arbitrary: codes) (auto split: option.splits sum.splits)

lemma csv_get_quarter:
  assumes "filename cls = Some fname"
    and "read_file s (joinpath (workdir E) [fname]) = Some text"
    and "read_csv E sep 0 text = Inr (n, cs)" and "cs \<noteq> []" and "2 \<le> n"
  shows "\<exists>res. csv_get E cls sep s = (Inr res, s) \<and> is_quarter_split n res"
proof -
  obtain c cs' where cs: "cs = c # cs'" using assms(4) by (cases cs) auto
  let ?df = "frame_of (n, cs)"
  from split_result_quarter [of "?df\<lparr>cols := butlast cs\<rparr>" n "column ?df (snd (last cs))" E]
  obtain res where res: "split_result E (?df\<lparr>cols := butlast cs\<rparr>) (column ?df (snd (last cs))) =
      Inr res" "is_quarter_split n res"
    using assms(5) by (auto simp: frame_of_def column_def)
  have "csv_get E cls sep s = (Inr res, s)"
    using assms(1-3) res(1) cs
    by (simp add: csv_get_def seq_def pure_def getattr_def fetch_if_absent_def isfile_def
        read_with_def split_last_column_def frame_of_def Let_def)
  with res(2) show ?thesis by blast
qed

lemma credit_get_quarter:
  assumes "read_file s (cache_path E DefaultCreditCardDataset) = Some text"
    and "read_excel E text = Inr (n, cs)" and "has_columns DefaultCreditCardDataset cs"
    and "2 \<le> n"
  shows "\<exists>res. DefaultCreditCardDataset_get E s = (Inr res, s) \<and> is_quarter_split n res"
proof -
  let ?df = "frame_of (n, cs)"
  from assms(3) obtain b f rest where y: "under ''Y'' cs = (b, f) # rest"
    by (cases "under ''Y'' cs") auto
  from assms(3) obtain xs where xs: "select_under credit_feature_keys cs = Inr xs"
    using select_under_total by fastforce
  from split_result_quarter [of "?df\<lparr>cols := xs\<rparr>" n "column ?df f" E]
  obtain res where res: "split_result E (?df\<lparr>cols := xs\<rparr>) (column ?df f) = Inr res"
      "is_quarter_split n res"
    using assms(4) by (auto simp: frame_of_def column_def)
  have "DefaultCreditCardDataset_get E s = (Inr res, s)"
    using assms(1,2) res(1) y xs
    by (simp add: DefaultCreditCardDataset_get_def seq_def pure_def getattr_def
        fetch_if_absent_def isfile_def read_with_def split_credit_def frame_of_def
        cache_path_def first_file_def Let_def)
  with res(2) show ?thesis by blast
qed

lemma adult_get_by_files:
  assumes "read_file s (joinpath (workdir E) [''adult.data'']) = Some text1"
    and "read_csv E '', '' 0 text1 = Inr (n1, cs1)"
    and "read_file s (joinpath (workdir E) [''adult.test'']) = Some text2"
    and "read_csv E '', '' 1 text2 = Inr (n2, cs2)"
    and "AdultDataset_get E s = (Inr res, s')"
  shows "s' = s \<and> is_file_split n1 n2 res"
  using assms
  by (auto simp: AdultDataset_get_def get_raw_def seq_def pure_def getattr_def item_def
      fetch_if_absent_def isfile_def read_with_def parse_dataset_def str_slice_def
      frame_of_def column_def series_values_def Let_def
      dest!: le_transform_length split: sum.splits if_splits prod.splits)

text \<open>
  The two classes whose \<^verbatim>\<open>get\<close> ends with \<^verbatim>\<open>return df\<close> never return a pair of
  splits.
\<close>

lemma raw_frame_classes:
  assumes "cls \<in> {SteelPlatesFaultsDataset, SeismicBumps}" and "get E cls s = (Inr res, s')"
  shows "\<exists>df. res = Whole df"
  using assms
  by (auto simp: SteelPlatesFaultsDataset_get_def SeismicBumps_get_def seismic_frame_def seq_def
      pure_def Let_def split: sum.splits prod.splits option.splits)

lemma demo_ranges:
  "[0..<4] = [0, 1, 2, 3 :: nat]"
  "[0..<8] = [0, 1, 2, 3, 4, 5, 6, 7 :: nat]"
  "[0..<15] = [0, 1, 2, 3, 4, 5, 6, 7, 8, 9, 10, 11, 12, 13, 14 :: nat]"
  by code_simp+

lemma demo_adult_result:
  "\<exists>res. get demo_env AdultDataset demo_adult_state = (Inr res, demo_adult_state) \<and>
         row_counts res = Some (8, 4)"
  by (simp add: AdultDataset_get_def get_raw_def seq_def pure_def getattr_def item_def
      fetch_if_absent_def isfile_def read_file_def read_with_def parse_dataset_def str_slice_def
      frame_of_def column_def series_values_def AdultDataset_feature_names_def
      workdir_def joinpath_def join2_def demo_env_def demo_adult_state_def demo_data_state_def
      demo_ranges Let_def)

text \<open>
  Claim C2, as amended. For \<^verbatim>\<open>DefaultCreditCardDataset\<close>, \<^verbatim>\<open>StatlogAustralianDataset\<close>
  and \<^verbatim>\<open>StatlogGermanDataset\<close>, when the file is present and parses to \<open>n \<ge> 2\<close> rows
  with the columns the class selects, \<^verbatim>\<open>get\<close> returns two (features, labels) pairs whose
  row labels are disjoint and together are the \<open>n\<close> rows that were parsed, the test pair
  holding \<open>\<lceil>n / 4\<rceil>\<close> of them, whatever the shuffle draws. For \<^verbatim>\<open>AdultDataset\<close>, when
  both files are present and \<^verbatim>\<open>get\<close> returns, the train pair is all rows of
  \<^verbatim>\<open>adult.data\<close> and the test pair all rows of \<^verbatim>\<open>adult.test\<close>, each with one label code
  per row: the test fraction is the one of the two files.
\<close>

theorem get_split_shapes:
  "(cls \<in> {DefaultCreditCardDataset, StatlogAustralianDataset, StatlogGermanDataset} \<and>
    read_file s (cache_path E cls) = Some content \<and> reader E cls content = Inr (n, cs) \<and>
    has_columns cls cs \<and> 2 \<le> n \<longrightarrow>
    (\<exists>res. get E cls s = (Inr res, s) \<and> is_quarter_split n res)) \<and>
   (read_file s (joinpath (workdir E) [''adult.data'']) = Some text1 \<and>
    read_csv E '', '' 0 text1 = Inr (n1, cs1) \<and>
    read_file s (joinpath (workdir E) [''adult.test'']) = Some text2 \<and>
    read_csv E '', '' 1 text2 = Inr (n2, cs2) \<and>
    get E AdultDataset s = (Inr res2, s') \<longrightarrow>
    s' = s \<and> is_file_split n1 n2 res2)"
proof (rule conjI; rule impI)
  assume h: "cls \<in> {DefaultCreditCardDataset, StatlogAustralianDataset, StatlogGermanDataset} \<and>
    read_file s (cache_path E cls) = Some content \<and> reader E cls content = Inr (n, cs) \<and>
    has_columns cls cs \<and> 2 \<le> n"
  then consider "cls = DefaultCreditCardDataset" | "cls = StatlogAustralianDataset"
    | "cls = StatlogGermanDataset" by blast
  then show "\<exists>res. get E cls s = (Inr res, s) \<and> is_quarter_split n res"
  proof cases
    case 1
    with h show ?thesis using credit_get_quarter [of s E content n cs] by simp
  next
    case 2
    with h show ?thesis
      using csv_get_quarter [of StatlogAustralianDataset _ s E content "'' ''" n cs]
      by (simp add: StatlogAustralianDataset_get_def cache_path_def first_file_def)
  next
    case 3
    with h show ?thesis
      using csv_get_quarter [of StatlogGermanDataset _ s E content _ n cs]
      by (simp add: StatlogGermanDataset_get_def cache_path_def first_file_def)
  qed
next
  assume "read_file s (joinpath (workdir E) [''adult.data'']) = Some text1 \<and>
    read_csv E '', '' 0 text1 = Inr (n1, cs1) \<and>
    read_file s (joinpath (workdir E) [''adult.test'']) = Some text2 \<and>
    read_csv E '', '' 1 text2 = Inr (n2, cs2) \<and>
    get E AdultDataset s = (Inr res2, s')"
  then show "s' = s \<and> is_file_split n1 n2 res2"
    using adult_get_by_files [of s E text1 n1 cs1 text2 n2 cs2 res2 s'] by simp
qed

theorem get_split_shapes_witness:
  "(case fst (get demo_env StatlogAustralianDataset demo_data_state) of
      Inl e \<Rightarrow> False
    | Inr res \<Rightarrow> is_quarter_split 8 res) \<and>
   (case fst (get demo_env AdultDataset demo_adult_state) of
      Inl e \<Rightarrow> False
    | Inr res \<Rightarrow> is_file_split 8 4 res)"
proof -
  have stored: "read_file demo_data_state (cache_path demo_env StatlogAustralianDataset) =
      Some ''EIGHT''"
    by (simp add: demo_cache_paths read_file_def demo_data_state_def)
  have parsed: "reader demo_env StatlogAustralianDataset ''EIGHT'' =
      Inr (8, [(Pos 0, \<lambda>i. i), (Pos 1, \<lambda>i. i mod 2)])"
    by (simp add: demo_env_def)
  have train: "read_file demo_adult_state (joinpath (workdir demo_env) [''adult.data'']) =
      Some ''ADULT1''"
    and test: "read_file demo_adult_state (joinpath (workdir demo_env) [''adult.test'']) =
      Some ''ADULT2''"
    by (simp_all add: demo_cache_paths read_file_def demo_adult_state_def)
  have parsed1: "read_csv demo_env '', '' 0 ''ADULT1'' =
      Inr (8, map (\<lambda>j. (Pos j, \<lambda>i. 0)) [0..<15])"
    and parsed2: "read_csv demo_env '', '' 1 ''ADULT2'' =
      Inr (4, map (\<lambda>j. (Pos j, \<lambda>i. 0)) [0..<15])"
    by (simp_all add: demo_env_def)
  from demo_adult_result obtain res2 where
    res2: "get demo_env AdultDataset demo_adult_state = (Inr res2, demo_adult_state)"
    by blast
  have "\<exists>res. get demo_env StatlogAustralianDataset demo_data_state =
      (Inr res, demo_data_state) \<and> is_quarter_split 8 res"
    using get_split_shapes [where cls = StatlogAustralianDataset and s = demo_data_state
      and E = demo_env and content = "''EIGHT''" and n = 8
      and cs = "[(Pos 0, \<lambda>i. i), (Pos 1, \<lambda>i. i mod 2)]", THEN conjunct1] stored parsed
    by simp
  then obtain res where "get demo_env StatlogAustralianDataset demo_data_state =
      (Inr res, demo_data_state)" "is_quarter_split 8 res"
    by blast
  moreover have "is_file_split 8 4 res2"
    using get_split_shapes [where s = demo_adult_state and E = demo_env
      and ?text1.0 = "''ADULT1''" and ?n1.0 = 8 and ?text2.0 = "''ADULT2''" and ?n2.0 = 4
      and ?res2.0 = res2 and s' = demo_adult_state, THEN conjunct2]
      train test parsed1 parsed2 res2
    by simp
  ultimately show ?thesis using res2 by simp
qed

text \<open>
  Claim C2, as stated, fails on \<^verbatim>\<open>AdultDataset\<close>: with eight rows in \<^verbatim>\<open>adult.data\<close> and
  four in \<^verbatim>\<open>adult.test\<close>, \<^verbatim>\<open>get\<close> returns eight train rows and four test rows, a
  third of the twelve rows and not a quarter split of them.
\<close>

theorem every_get_quarter_split_counterexample:
  "(case fst (get demo_env AdultDataset demo_adult_state) of
      Inl e \<Rightarrow> False
    | Inr res \<Rightarrow> row_counts res = Some (8, 4) \<and> \<not> is_quarter_split 12 res)"
proof -
  from demo_adult_result obtain res where
    res: "get demo_env AdultDataset demo_adult_state = (Inr res, demo_adult_state)"
      "row_counts res = Some (8, 4)" by blast
  have "\<not> is_quarter_split 12 res"
  proof
    assume q: "is_quarter_split 12 res"
    then obtain Xtr ytr Xte yte where "res = Splits (Xtr, ytr) (Xte, yte)"
      by (cases res rule: row_counts.cases) auto
    with q res(2) show False by simp
  qed
  with res show ?thesis by simp
qed

section \<open>Results on the aggregator\<close>

subsection \<open>The rows of \<^verbatim>\<open>get_results_table\<close>\<close>

lemma strip_prefix_append: "strip_prefix a (a @ b) = Some b"
  by (induction a) simp_all

lemma slash_not_alnum: "\<not> is_alnum (CHR ''/'')"
  by (simp add: is_alnum_def)

lemma take_run: "list_all is_alnum d \<Longrightarrow> takeWhile is_alnum (d @ CHR ''/'' # r) = d"
  by (induction d) (simp_all add: slash_not_alnum)

lemma drop_run: "list_all is_alnum d \<Longrightarrow> dropWhile is_alnum (d @ CHR ''/'' # r) = CHR ''/'' # r"
  by (induction d) (simp_all add: slash_not_alnum)

lemma pattern_match_entry:
  assumes "d \<noteq> []" "list_all is_alnum d" "m \<noteq> []" "list_all is_alnum m"
  shows "pattern_match (''results/'' @ d @ ''/'' @ m @ ''/evaluation.json'') = Some (d, m)"
proof -
  have 1: "strip_prefix (RESULTS_DIR @ ''/'') (''results/'' @ d @ ''/'' @ m @ ''/evaluation.json'')
      = Some (d @ CHR ''/'' # m @ ''/evaluation.json'')"
    using strip_prefix_append [of "''results/''" "d @ ''/'' @ m @ ''/evaluation.json''"]
    by (simp add: RESULTS_DIR_def)
  have 2: "takeWhile is_alnum (m @ ''/evaluation.json'') = m"
    "dropWhile is_alnum (m @ ''/evaluation.json'') = ''/evaluation.json''"
    using take_run [OF assms(4), of "''evaluation.json''"]
      drop_run [OF assms(4), of "''evaluation.json''"] by simp_all
  show ?thesis
    unfolding pattern_match_def 1
    using assms(1,3)
    by (simp add: take_run [OF assms(2)] drop_run [OF assms(2)] 2 Let_def)
qed

lemma format_of_plain: "(if plain v then [] else ''.2f'') = format_of v"
  by (cases v) simp_all

lemma formatted_hp_items: "list_all2 (formatted L) kvs ts \<Longrightarrow> hp_items L kvs = Inr ts"
proof (induction kvs ts rule: list_all2_induct)
  case Nil
  then show ?case by simp
next
  case (Cons kv kvs t ts)
  obtain k v where kv: "kv = (k, v)" by (cases kv)
  from Cons.hyps(1) have "hp_item L k v = Inr t"
    unfolding kv formatted_def hp_item_def format_of_plain
    by (cases "py_format L v (format_of v)") simp_all
  with Cons.IH show ?case by (simp add: kv)
qed

lemma table_row_entry:
  assumes "entry_stored L s e"
  shows "table_row L s (entry_path e) = Inr (entry_row e)"
proof -
  from assms obtain content where t: "read_file s (entry_path e) = Some content"
    "json_load L content = Inr (JObj (e_doc e))"
    by (auto simp: entry_stored_def split: option.splits)
  have m: "pattern_match (entry_path e) = Some (e_dataset e, e_model e)"
    using assms unfolding entry_path_def entry_stored_def
    by (intro pattern_match_entry) simp_all
  have items: "hp_items L (e_hp e) = Inr (e_items e)"
    using assms by (simp add: entry_stored_def formatted_hp_items)
  have hp: "map_of (e_doc e) ''hp'' = Some (JObj (e_hp e))"
    using assms by (simp add: entry_stored_def)
  show ?thesis
    using t m items hp
    by (simp add: table_row_def entry_row_def)
qed

lemma table_rows_entries:
  assumes "\<forall>e\<in>set entries. entry_stored L s e"
  shows "table_rows L s (map entry_path entries) = Inr (map entry_row entries)"
  using assms by (induction entries) (simp_all add: table_row_entry)

lemma cell_update: "cell (AList.update k v al) c = (if c = k then v else cell al c)"
  by (simp add: cell_def update_conv')

lemma entry_row_cells:
  "cell (entry_row e) ''dataset'' = JStr (e_dataset e)"
  "cell (entry_row e) ''model'' = JStr (e_model e)"
  "cell (entry_row e) ''hp'' = JStr (join '','' (e_items e))"
  "c \<notin> {''dataset'', ''model'', ''hp''} \<Longrightarrow> cell (entry_row e) c = cell (e_doc e) c"
  by (simp_all add: entry_row_def cell_update)

lemma projected_cell:
  "c \<in> set columns \<Longrightarrow> cell (map (\<lambda>c. (c, cell d c)) columns) c = cell d c"
  by (induction columns) (auto simp: cell_def)

lemma entry_row_keys:
  "map_of (entry_row e) ''dataset'' \<noteq> None" "map_of (entry_row e) ''model'' \<noteq> None"
  "map_of (entry_row e) ''hp'' \<noteq> None"
  "map_of (e_doc e) c \<noteq> None \<Longrightarrow> map_of (entry_row e) c \<noteq> None"
  by (simp_all add: entry_row_def update_conv')

lemma remaining_columns:
  "c \<in> set [a1, a2, a3, a4, a5, a6, a7, a8] \<Longrightarrow> c \<notin> {a1, a2, a8} \<Longrightarrow>
   c \<in> {a3, a4, a5, a6, a7}"
  by auto

lemma demo_listing:
  "glob_results demo_results_state = [''results/D/M/evaluation.json'']"
  "glob_results demo_underscore_state = [''results/my_data/M/evaluation.json'']"
  by (simp_all add: glob_results_def glob_match_def demo_results_state_def
      demo_underscore_state_def demo_state_def)

text \<open>
  Directory names of ASCII letters and digits. Let the files that match
  \<^verbatim>\<open>results/*/*/evaluation.json\<close> be at least one and be stored evaluation files, and
  let each column of the table occur in some file. Then \<^verbatim>\<open>get_results_table\<close> returns a
  table with the eight columns and exactly one row for each of these files, in their
  order; the \<^verbatim>\<open>dataset\<close> and \<^verbatim>\<open>model\<close> cells of a row are the two path segments before
  the file name, and its \<^verbatim>\<open>hp\<close> cell is the comma-joined list of the formatted items.
\<close>

lemma results_table_rows:
  assumes listed: "glob_results s = map entry_path entries"
    and some: "entries \<noteq> []"
    and stored: "\<forall>e\<in>set entries. entry_stored L s e"
    and columns: "\<forall>c\<in>{''score'', ''val_score'', ''train_time'', ''evaluation_time'',
                      ''tuning_n_trials''}. \<exists>e\<in>set entries. map_of (e_doc e) c \<noteq> None"
  shows "\<exists>T. get_results_table L s = Inr T \<and> tcolumns T = results_columns \<and>
           length (trows T) = length entries \<and>
           (\<forall>i<length entries.
              cell (trows T ! i) ''dataset'' = JStr (e_dataset (entries ! i)) \<and>
              cell (trows T ! i) ''model'' = JStr (e_model (entries ! i)) \<and>
              cell (trows T ! i) ''hp'' = JStr (join '','' (e_items (entries ! i))))"
proof -
  let ?dicts = "map entry_row entries"
  let ?T = "\<lparr>tcolumns = results_columns,
             trows = map (\<lambda>d. map (\<lambda>c. (c, cell d c)) results_columns) ?dicts\<rparr>"
  obtain e0 where e0: "e0 \<in> set entries" using some by (cases entries) auto
  have present: "\<exists>e\<in>set entries. map_of (entry_row e) c \<noteq> None"
    if "c \<in> set results_columns" for c
  proof (cases "c \<in> {''dataset'', ''model'', ''hp''}")
    case True
    with e0 show ?thesis using entry_row_keys(1-3) [of e0] by auto
  next
    case False
    from that have "c \<in> set [''dataset'', ''model'', ''score'', ''val_score'', ''train_time'',
                             ''evaluation_time'', ''tuning_n_trials'', ''hp'']"
      by (simp only: results_columns_def)
    from remaining_columns [OF this False]
    have "c \<in> {''score'', ''val_score'', ''train_time'', ''evaluation_time'',
                 ''tuning_n_trials''}" .
    from bspec [OF columns this]
    obtain e where "e \<in> set entries" "map_of (e_doc e) c \<noteq> None" ..
    then show ?thesis using entry_row_keys(4) by blast
  qed
  have ok: "\<not> list_ex (\<lambda>c. list_all (\<lambda>d. map_of d c = None) ?dicts) results_columns"
    using present by (fastforce simp: list_ex_iff list_all_iff)
  have table: "get_results_table L s = Inr ?T"
    using ok by (simp add: get_results_table_def listed table_rows_entries [OF stored]
        select_columns_def)
  have rows: "cell (trows ?T ! i) c = cell (entry_row (entries ! i)) c"
    if "i < length entries" "c \<in> set results_columns" for i c
    using that by (simp add: projected_cell)
  have "\<forall>i<length entries.
      cell (trows ?T ! i) ''dataset'' = JStr (e_dataset (entries ! i)) \<and>
      cell (trows ?T ! i) ''model'' = JStr (e_model (entries ! i)) \<and>
      cell (trows ?T ! i) ''hp'' = JStr (join '','' (e_items (entries ! i)))"
    using rows by (simp add: entry_row_cells results_columns_def)
  with table show ?thesis by (intro exI [of _ ?T]) simp
qed

lemma results_table_rows_example:
  "glob_results demo_results_state = map entry_path [demo_entry] \<and>
   entry_stored demo_lib demo_results_state demo_entry \<and>
   (case get_results_table demo_lib demo_results_state of
      Inl e \<Rightarrow> False
    | Inr T \<Rightarrow> length (trows T) = 1 \<and> cell (trows T ! 0) ''dataset'' = JStr ''D'' \<and>
        cell (trows T ! 0) ''model'' = JStr ''M'' \<and>
        cell (trows T ! 0) ''hp'' = JStr ''n_estimators=#'')"
proof -
  have path: "entry_path demo_entry = ''results/D/M/evaluation.json''"
    by (simp add: entry_path_def demo_entry_def)
  have listed: "glob_results demo_results_state = map entry_path [demo_entry]"
    by (simp add: demo_listing path)
  have stored: "entry_stored demo_lib demo_results_state demo_entry"
    unfolding entry_stored_def path
    by (simp add: demo_entry_def is_alnum_def read_file_def demo_results_state_def
        demo_state_def demo_lib_def demo_result_def formatted_def)
  have columns: "\<forall>c\<in>{''score'', ''val_score'', ''train_time'', ''evaluation_time'',
                      ''tuning_n_trials''}. \<exists>e\<in>set [demo_entry]. map_of (e_doc e) c \<noteq> None"
    by (simp add: demo_entry_def demo_result_def)
  from results_table_rows [OF listed _ _ columns, of demo_lib] stored
  obtain T where "get_results_table demo_lib demo_results_state = Inr T"
    "length (trows T) = 1" "cell (trows T ! 0) ''dataset'' = JStr ''D''"
    "cell (trows T ! 0) ''model'' = JStr ''M''"
    "cell (trows T ! 0) ''hp'' = JStr ''n_estimators=#''"
    by (auto simp: demo_entry_def)
  with listed stored show ?thesis by simp
qed

text \<open>
  Claim C3. \<^verbatim>\<open>get_results_table\<close> is to produce one row for every \<^verbatim>\<open>evaluation.json\<close>
  under the results root, its \<^verbatim>\<open>dataset\<close> and \<^verbatim>\<open>model\<close> taken from the two path segments
  before the file name. It does not for a dataset named \<^verbatim>\<open>my_data\<close>:
  \<^verbatim>\<open>results/my_data/M/evaluation.json\<close> is the path at which \<^verbatim>\<open>save_evaluation_results\<close>
  stores the result of that dataset with model \<^verbatim>\<open>M\<close>, the glob lists the file, and it
  loads as a complete result; but the compiled pattern admits letters and digits only,
  so the match is \<open>None\<close>, and \<^verbatim>\<open>get_results_table\<close> raises \<^verbatim>\<open>AttributeError\<close> instead
  of returning the table with that row.
\<close>

theorem get_results_table_fails_on_listed_file:
  "evaluation_path (demo_dataset\<lparr>ds_name := ''my_data''\<rparr>) demo_model =
     ''results/my_data/M/evaluation.json'' \<and>
   glob_results demo_underscore_state = [''results/my_data/M/evaluation.json''] \<and>
   read_file demo_underscore_state ''results/my_data/M/evaluation.json'' = Some ''RESULT'' \<and>
   json_load demo_lib ''RESULT'' = Inr (JObj demo_result) \<and>
   pattern_match ''results/my_data/M/evaluation.json'' = None \<and>
   get_results_table demo_lib demo_underscore_state = Inl AttributeError"
proof -
  have written: "evaluation_path (demo_dataset\<lparr>ds_name := ''my_data''\<rparr>) demo_model =
      ''results/my_data/M/evaluation.json''"
    by (simp add: evaluation_path_def joinpath_def join2_def RESULTS_DIR_def demo_model_def)
  have loads: "json_load demo_lib ''RESULT'' = Inr (JObj demo_result)"
    by (simp add: demo_lib_def)
  have no_match: "pattern_match ''results/my_data/M/evaluation.json'' = None"
    by (simp add: pattern_match_def is_alnum_def RESULTS_DIR_def Let_def)
  have stored: "read_file demo_underscore_state ''results/my_data/M/evaluation.json'' =
      Some ''RESULT''"
    by (simp add: read_file_def demo_underscore_state_def)
  have raised: "get_results_table demo_lib demo_underscore_state = Inl AttributeError"
    by (simp add: get_results_table_def demo_listing table_row_def no_match)
  from written demo_listing(2) stored loads no_match raised show ?thesis
    by (intro conjI)
qed

subsection \<open>The effect of \<^verbatim>\<open>get_model_ranking\<close> on its argument\<close>

lemma score_values_length: "score_values vs = Inr fs \<Longrightarrow> length fs = length vs"
  by (induction vs arbitrary: fs) (auto split: sum.splits)

lemma float_lt_NaN: "\<not> float_lt v NaN"
  by (cases v) simp_all

lemma float_eq_NaN: "\<not> float_eq v NaN"
  by (cases v) simp_all

lemma counts_without_NaN:
  "length (filter (float_lt v) (map snd (filter (\<lambda>(k, w). Q k \<and> w \<noteq> NaN) kws))) =
   length (filter (float_lt v) (map snd (filter (\<lambda>(k, w). Q k) kws)))"
  "length (filter (float_eq v) (map snd (filter (\<lambda>(k, w). Q k \<and> w \<noteq> NaN) kws))) =
   length (filter (float_eq v) (map snd (filter (\<lambda>(k, w). Q k) kws)))"
  by (induction kws) (auto simp: float_lt_NaN float_eq_NaN)

lemma rank_in_group_descending:
  assumes "\<forall>(k, w)\<in>set keyed. \<exists>d. k = JStr d"
  shows "rank_in_group keyed (JStr d) v =
         descending_rank (map snd (filter (\<lambda>(k, w). k = JStr d) keyed)) v"
proof -
  have same: "filter (\<lambda>(k', w). \<not> is_null k' \<and> py_same k' (JStr d) \<and> w \<noteq> NaN) keyed =
              filter (\<lambda>(k', w). k' = JStr d \<and> w \<noteq> NaN) keyed"
    using assms by (intro filter_cong) (auto simp: is_null_def)
  define G where "G = length (filter (float_lt v) (map snd (filter (\<lambda>(k, w). k = JStr d) keyed)))"
  define E where "E = length (filter (float_eq v) (map snd (filter (\<lambda>(k, w). k = JStr d) keyed)))"
  have arith: "(of_nat G :: rat) + (of_nat E + 1) / 2 = 1 + of_nat G + (of_nat E - 1) / 2"
    by (simp add: field_simps)
  have "rank_in_group keyed (JStr d) v =
        (if v = NaN then NaN else Finite (of_nat G + (of_nat E + 1) / 2))"
    unfolding rank_in_group_def Let_def same G_def E_def
      counts_without_NaN [where Q = "\<lambda>k. k = JStr d"]
    by (simp add: is_null_def)
  also have "\<dots> = descending_rank (map snd (filter (\<lambda>(k, w). k = JStr d) keyed)) v"
    unfolding descending_rank_def G_def [symmetric] E_def [symmetric] arith ..
  finally show ?thesis .
qed

lemma dataset_scores_keyed:
  "map snd (filter (\<lambda>(k, w). k = d) (zip (map (\<lambda>row. cell row ''dataset'') rows) scores)) =
   map snd (filter (\<lambda>(row, w). cell row ''dataset'' = d) (zip rows scores))"
  by (simp add: zip_map1 filter_map o_def case_prod_unfold)

lemma assign_column_rows:
  assumes "length vs = length (trows t)" and "i < length (trows t)"
  shows "trows (assign_column c vs t) ! i = AList.update c (vs ! i) (trows t ! i)"
  using assms by (simp add: assign_column_def)

text \<open>
  Claim C9. Let the table passed to \<^verbatim>\<open>get_model_ranking\<close> have the columns
  \<^verbatim>\<open>dataset\<close> and \<^verbatim>\<open>score\<close>, with dataset names in the one and numbers in the other, as
  a results table has. After the call the table at the same reference has a column
  \<^verbatim>\<open>model_rank\<close>, which holds for each row the descending rank of its score among the
  scores of its dataset; its other cells and the other objects of the store are as
  before; and if the table had no such column, it is no longer the table it was.
\<close>

theorem get_model_ranking_mutates_input:
  assumes cols: "''dataset'' \<in> set (tcolumns (h results))" "''score'' \<in> set (tcolumns (h results))"
    and keys: "\<forall>row\<in>set (trows (h results)). \<exists>d. cell row ''dataset'' = JStr d"
    and scores: "score_values (map (\<lambda>row. cell row ''score'') (trows (h results))) = Inr scores"
    and after: "h' = snd (get_model_ranking P results h)"
  shows "''model_rank'' \<in> set (tcolumns (h' results)) \<and>
         length (trows (h' results)) = length (trows (h results)) \<and>
         (\<forall>i<length (trows (h results)).
            cell (trows (h' results) ! i) ''model_rank'' =
              JFloat (descending_rank
                        (dataset_scores (h results) scores (cell (trows (h results) ! i) ''dataset''))
                        (scores ! i)) \<and>
            (\<forall>c. c \<noteq> ''model_rank'' \<longrightarrow>
                 cell (trows (h' results) ! i) c = cell (trows (h results) ! i) c)) \<and>
         (\<forall>r. r \<noteq> results \<longrightarrow> h' r = h r) \<and>
         (''model_rank'' \<notin> set (tcolumns (h results)) \<longrightarrow> h' results \<noteq> h results)"
proof -
  define t where "t = h results"
  define ks where "ks = map (\<lambda>row. cell row ''dataset'') (trows t)"
  define keyed where "keyed = zip ks scores"
  define ranks where "ranks = map (\<lambda>(k, v). rank_in_group keyed k v) keyed"
  define ranked where "ranked = assign_column ''model_rank'' (map JFloat ranks) t"
  have n: "length scores = length (trows t)"
    using score_values_length [OF scores] by (simp add: t_def)
  have hashable: "list_all hashable ks"
    using keys by (auto simp: list_all_iff ks_def t_def)
  have strs: "\<forall>(k, w)\<in>set keyed. \<exists>d. k = JStr d"
    using keys by (auto simp: keyed_def ks_def t_def dest!: set_zip_leftD)
  have run: "h' = h(results := ranked)"
    unfolding after get_model_ranking_def
    using cols hashable scores
    by (simp add: Let_def t_def [symmetric] ks_def [symmetric] keyed_def [symmetric]
        ranks_def [symmetric] ranked_def [symmetric])
  have len: "length ranks = length (trows t)"
    by (simp add: ranks_def keyed_def ks_def n)
  have rows: "trows ranked ! i = AList.update ''model_rank'' (JFloat (ranks ! i)) (trows t ! i)"
    if "i < length (trows t)" for i
    unfolding ranked_def using that len by (simp add: assign_column_rows)
  have rank: "ranks ! i =
      descending_rank (dataset_scores t scores (cell (trows t ! i) ''dataset'')) (scores ! i)"
    if i: "i < length (trows t)" for i
  proof -
    from i have "trows t ! i \<in> set (trows (h results))"
      by (simp add: t_def)
    with keys obtain d where d: "cell (trows t ! i) ''dataset'' = JStr d"
      by blast
    have "keyed ! i = (JStr d, scores ! i)"
      using i n d by (simp add: keyed_def ks_def)
    then have "ranks ! i = rank_in_group keyed (JStr d) (scores ! i)"
      using i n by (simp add: ranks_def keyed_def ks_def)
    also have "\<dots> = descending_rank (map snd (filter (\<lambda>(k, w). k = JStr d) keyed)) (scores ! i)"
      by (rule rank_in_group_descending [OF strs])
    finally show ?thesis
      by (simp add: d dataset_scores_def keyed_def ks_def dataset_scores_keyed)
  qed
  have "''model_rank'' \<in> set (tcolumns ranked)"
    by (simp add: ranked_def assign_column_def)
  moreover have "length (trows ranked) = length (trows t)"
    using len by (simp add: ranked_def assign_column_def)
  moreover have "''model_rank'' \<notin> set (tcolumns t) \<longrightarrow> ranked \<noteq> t"
  proof
    assume "''model_rank'' \<notin> set (tcolumns t)"
    then have "tcolumns ranked \<noteq> tcolumns t"
      by (simp add: ranked_def assign_column_def)
    then show "ranked \<noteq> t" by auto
  qed
  ultimately show ?thesis
    unfolding run using rows rank
    by (simp add: t_def [symmetric] cell_update)
qed

theorem get_model_ranking_mutates_input_witness:
  "score_values (map (\<lambda>row. cell row ''score'') (trows (demo_store 0))) =
     Inr [Finite (9 / 10), Finite (7 / 10), Finite (1 / 2)] \<and>
   ''model_rank'' \<notin> set (tcolumns (demo_store 0)) \<and>
   ''model_rank'' \<in> set (tcolumns (snd (get_model_ranking demo_pandas 0 demo_store) 0)) \<and>
   cell (trows (snd (get_model_ranking demo_pandas 0 demo_store) 0) ! 1) ''model_rank'' =
     JFloat (Finite 2) \<and>
   snd (get_model_ranking demo_pandas 0 demo_store) 0 \<noteq> demo_store 0"
proof -
  have cols: "''dataset'' \<in> set (tcolumns (demo_store 0))"
      "''score'' \<in> set (tcolumns (demo_store 0))"
    and fresh: "''model_rank'' \<notin> set (tcolumns (demo_store 0))"
    by (simp_all add: demo_store_def demo_table_def)
  have keys: "\<forall>row\<in>set (trows (demo_store 0)). \<exists>d. cell row ''dataset'' = JStr d"
    by (simp add: demo_store_def demo_table_def cell_def)
  have scores: "score_values (map (\<lambda>row. cell row ''score'') (trows (demo_store 0))) =
      Inr [Finite (9 / 10), Finite (7 / 10), Finite (1 / 2)]"
    by (simp add: demo_store_def demo_table_def cell_def score_value_def)
  have second: "(1 :: nat) < length (trows (demo_store 0))"
    by (simp add: demo_store_def demo_table_def)
  have rank: "descending_rank
      (dataset_scores (demo_store 0) [Finite (9 / 10), Finite (7 / 10), Finite (1 / 2)]
         (cell (trows (demo_store 0) ! 1) ''dataset''))
      ([Finite (9 / 10), Finite (7 / 10), Finite (1 / 2)] ! 1) = Finite 2"
    by (simp add: descending_rank_def dataset_scores_def demo_store_def demo_table_def cell_def)
  from get_model_ranking_mutates_input [where h = demo_store and results = 0
      and P = demo_pandas, OF cols keys scores refl]
    fresh second rank scores
  show ?thesis by simp
qed

end
